theory Spec2Isabelle
  imports Main
begin

section \<open>Enumerations\<close>

text \<open>
  The string enums of \<^verbatim>\<open>src/common/dto/notification.dto.ts\<close>. The notification status and
  the delivery status share the values PENDING, SENT and FAILED; the constructors of the
  delivery status carry the prefix \<open>DELIVERY_\<close> to keep the two types apart.
\<close>

datatype NotificationType = ANNOUNCEMENT | ASSIGNMENT | GRADE | REMINDER | SYSTEM

datatype NotificationStatus = PENDING | SENT | READ | FAILED

datatype NotificationChannelType = EMAIL | FCM | WEBHOOK | SMS | SLACK | DISCORD | TELEGRAM

datatype NotificationDeliveryStatus =
  DELIVERY_PENDING | DELIVERY_SENT | DELIVERY_DELIVERED | DELIVERY_FAILED | DELIVERY_RETRY

text \<open>The string value of a channel kind, as a template literal \<^verbatim>\<open>${type}\<close> renders it.\<close>

fun channelTypeString :: "NotificationChannelType \<Rightarrow> string" where
  "channelTypeString EMAIL = ''EMAIL''"
| "channelTypeString FCM = ''FCM''"
| "channelTypeString WEBHOOK = ''WEBHOOK''"
| "channelTypeString SMS = ''SMS''"
| "channelTypeString SLACK = ''SLACK''"
| "channelTypeString DISCORD = ''DISCORD''"
| "channelTypeString TELEGRAM = ''TELEGRAM''"

section \<open>Faults\<close>

text \<open>
  A value thrown inside a handler: an \<^verbatim>\<open>Error\<close> object with its name and message, or any
  other thrown value with its string rendering. \<open>errorMessageOf\<close> is the expression
  \<^verbatim>\<open>error instanceof Error ? error.message : 'Unknown error'\<close> of the catch blocks;
  \<open>thrownToString\<close> is what \<^verbatim>\<open>${error}\<close> renders (\<^verbatim>\<open>Error.prototype.toString\<close>).
\<close>

datatype thrown = JsError string string | NonError string

fun errorMessageOf :: "thrown \<Rightarrow> string" where
  "errorMessageOf (JsError name msg) = msg"
| "errorMessageOf (NonError rendering) = ''Unknown error''"

fun thrownToString :: "thrown \<Rightarrow> string" where
  "thrownToString (JsError name msg) =
     (if name = [] then msg else if msg = [] then name else name @ '': '' @ msg)"
| "thrownToString (NonError rendering) = rendering"

text \<open>
  The request-level failures of the service: the two exceptions it throws itself and the
  error the persistence client raises when a write breaks a constraint of the schema.
\<close>

datatype exception = NotFoundException string | Error string | PrismaClientKnownRequestError string

section \<open>Rows of the store and transfer objects\<close>

text \<open>
  Identities are opaque strings that the store generates; they are modelled as natural
  numbers, of which only equality is used. A \<^verbatim>\<open>Date\<close> is a number of milliseconds. The
  \<^verbatim>\<open>Record<string, any>\<close> metadata of a channel is a list of key and value pairs. The
  creation and update stamps of the rows, which the schema fills in, are left out, and so are
  the message identifier and the result metadata of a delivery outcome: no branch of the
  modelled code reads them.
\<close>

type_synonym Id = nat
type_synonym Date = nat
type_synonym Metadata = "(string \<times> string) list"

record User =
  u_id :: Id
  u_name :: string
  u_email :: string

record Notification =
  n_id :: Id
  n_title :: string
  n_message :: string
  n_type :: NotificationType
  n_senderId :: Id
  n_recipientId :: Id
  n_status :: NotificationStatus

record NotificationChannel =
  c_id :: Id
  c_userId :: Id
  c_type :: NotificationChannelType
  c_value :: string
  c_isActive :: bool
  c_isVerified :: bool
  c_metadata :: Metadata

record NotificationDelivery =
  d_id :: Id
  d_notificationId :: Id
  d_channelId :: Id
  d_status :: NotificationDeliveryStatus
  d_sentAt :: "Date option"
  d_deliveredAt :: "Date option"
  d_failedAt :: "Date option"
  d_errorMessage :: "string option"
  d_retryCount :: nat

record CreateNotificationDto =
  dto_title :: string
  dto_message :: string
  dto_type :: NotificationType
  dto_recipientId :: Id
  dto_channels :: "NotificationChannelType list option"

record NotificationDeliveryDto =
  dd_id :: Id
  dd_channelType :: NotificationChannelType
  dd_channelValue :: string
  dd_status :: NotificationDeliveryStatus
  dd_sentAt :: "Date option"
  dd_deliveredAt :: "Date option"
  dd_failedAt :: "Date option"
  dd_errorMessage :: "string option"
  dd_retryCount :: nat

record NotificationResponseDto =
  r_id :: Id
  r_title :: string
  r_message :: string
  r_type :: NotificationType
  r_status :: NotificationStatus
  r_senderId :: Id
  r_recipientId :: Id
  r_deliveries :: "NotificationDeliveryDto list option"

record CreateNotificationChannelDto =
  cc_type :: NotificationChannelType
  cc_value :: string
  cc_isActive :: "bool option"
  cc_metadata :: "Metadata option"

record UpdateNotificationChannelDto =
  uc_isActive :: "bool option"
  uc_isVerified :: "bool option"
  uc_metadata :: "Metadata option"

section \<open>Channel providers and the provider factory\<close>

text \<open>
  \<^verbatim>\<open>NotificationPayload\<close> as \<^verbatim>\<open>sendToChannels\<close> builds it, and \<^verbatim>\<open>DeliveryResult\<close> as the
  providers return it. The interface file \<^verbatim>\<open>base.provider.ts\<close> is read off its
  implementations in \<^verbatim>\<open>email.provider.ts\<close> and \<^verbatim>\<open>fcm.provider.ts\<close>.
\<close>

record NotificationPayload =
  p_title :: string
  p_message :: string
  p_type :: NotificationType
  p_senderName :: string
  p_senderEmail :: string

record DeliveryResult =
  success :: bool
  status :: NotificationDeliveryStatus
  errorMessage :: "string option"

text \<open>
  A provider talks to the outside world (a mail service, the push service). The world is a
  state of an arbitrary type \<open>'w\<close> that every send receives and returns, so that two sends
  to the same address may end differently. A send either returns a \<open>DeliveryResult\<close>
  (\<open>Inr\<close>) or throws (\<open>Inl\<close>).
\<close>

record 'w ChannelProvider =
  send :: "string \<Rightarrow> NotificationPayload \<Rightarrow> Metadata \<Rightarrow> 'w \<Rightarrow> (thrown + DeliveryResult) \<times> 'w"
  validateChannelValue :: "string \<Rightarrow> bool"

type_synonym 'w NotificationProviderFactory = "NotificationChannelType \<Rightarrow> 'w ChannelProvider option"

text \<open>\<^verbatim>\<open>provider.factory.ts\<close>: the constructor registers the two injected providers.\<close>

definition registerProviders ::
  "'w ChannelProvider \<Rightarrow> 'w ChannelProvider \<Rightarrow> 'w NotificationProviderFactory" where
  "registerProviders emailProvider fcmProvider =
     (Map.empty(EMAIL \<mapsto> emailProvider))(FCM \<mapsto> fcmProvider)"

definition getProvider ::
  "'w NotificationProviderFactory \<Rightarrow> NotificationChannelType \<Rightarrow> 'w ChannelProvider option" where
  "getProvider providers type = providers type"

definition sendNotification ::
  "'w NotificationProviderFactory \<Rightarrow> NotificationChannelType \<Rightarrow> string \<Rightarrow> NotificationPayload
     \<Rightarrow> Metadata \<Rightarrow> 'w \<Rightarrow> DeliveryResult \<times> 'w" where
  "sendNotification providers type channelValue payload metadata w =
     (case getProvider providers type of
        None \<Rightarrow>
          (\<lparr>success = False, status = DELIVERY_FAILED,
            errorMessage = Some (''No provider available for channel type: '' @ channelTypeString type)\<rparr>, w)
      | Some provider \<Rightarrow>
          (case send provider channelValue payload metadata w of
             (Inr result, w') \<Rightarrow> (result, w')
           | (Inl error, w') \<Rightarrow>
               (\<lparr>success = False, status = DELIVERY_FAILED,
                 errorMessage = Some (errorMessageOf error)\<rparr>, w')))"

definition factory_validateChannelValue ::
  "'w NotificationProviderFactory \<Rightarrow> NotificationChannelType \<Rightarrow> string \<Rightarrow> bool" where
  "factory_validateChannelValue providers type v =
     (case getProvider providers type of
        None \<Rightarrow> False
      | Some provider \<Rightarrow> validateChannelValue provider v)"

section \<open>The email and the push provider\<close>

text \<open>
  \<^verbatim>\<open>email.provider.ts\<close> and \<^verbatim>\<open>fcm.provider.ts\<close>. A string is a list of the code units 0
  to 255. What the providers take from outside is the environment: the configuration
  (\<^verbatim>\<open>configService.get\<close>) and the two HTTP calls, each of which answers with a response or
  throws. The response of the mail service carries \<^verbatim>\<open>ok\<close>, \<^verbatim>\<open>status\<close> and the outcome of
  \<^verbatim>\<open>text()\<close>; that of the push service carries \<^verbatim>\<open>ok\<close>, whether the \<^verbatim>\<open>success\<close> of its
  body is 1, and \<^verbatim>\<open>results?.[0]?.error\<close>; a body that cannot be read is a throw.
\<close>

record sendgrid_response =
  sg_ok :: bool
  sg_status :: nat
  sg_text :: "thrown + string"

record fcm_response =
  fcm_ok :: bool
  fcm_success_is_1 :: bool
  fcm_first_error :: "string option"

record 'w environment =
  config :: "string \<Rightarrow> string option"
  fetch_sendgrid :: "string \<Rightarrow> string \<Rightarrow> NotificationPayload \<Rightarrow> 'w \<Rightarrow> (thrown + sendgrid_response) \<times> 'w"
  fetch_fcm :: "string \<Rightarrow> string \<Rightarrow> NotificationPayload \<Rightarrow> Metadata \<Rightarrow> 'w \<Rightarrow> (thrown + fcm_response) \<times> 'w"

definition config_get :: "'w environment \<Rightarrow> string \<Rightarrow> string \<Rightarrow> string" where
  "config_get env key dflt = (case config env key of None \<Rightarrow> dflt | Some v \<Rightarrow> v)"

text \<open>
  \<^verbatim>\<open>!value\<close> for a string that may be undefined. Where the source reads a key without a
  default and tests it with \<^verbatim>\<open>!\<close>, the undefined and the empty string take the same
  branch, so \<open>config_get\<close> with the empty default reads the same.
\<close>

fun falsy :: "string option \<Rightarrow> bool" where
  "falsy None = True"
| "falsy (Some v) = (v = [])"

text \<open>The class \<^verbatim>\<open>\s\<close> among the code units 0 to 255.\<close>

definition isWhitespace :: "char \<Rightarrow> bool" where
  "isWhitespace c = ((of_char c :: nat) \<in> set [9, 10, 11, 12, 13, 32, 160])"

text \<open>
  \<^verbatim>\<open>/^[^\s@]+@[^\s@]+\.[^\s@]+$/\<close>: the part before the first \<^verbatim>\<open>@\<close> is not empty and has
  no white space; the part after it has no white space and no \<^verbatim>\<open>@\<close>, and has a dot that
  is neither its first nor its last character.
\<close>

definition EmailProvider_validateChannelValue :: "string \<Rightarrow> bool" where
  "EmailProvider_validateChannelValue channelValue =
     (let local = takeWhile (\<lambda>c. c \<noteq> CHR ''@'') channelValue;
          rest = dropWhile (\<lambda>c. c \<noteq> CHR ''@'') channelValue
      in local \<noteq> [] \<and> list_all (\<lambda>c. \<not> isWhitespace c) local \<and>
         (case rest of
            [] \<Rightarrow> False
          | at # domain \<Rightarrow>
              list_all (\<lambda>c. \<not> isWhitespace c \<and> c \<noteq> CHR ''@'') domain \<and>
              CHR ''.'' \<in> set (butlast (tl domain))))"

text \<open>\<^verbatim>\<open>/^[A-Za-z0-9:_-]{140,}$/\<close>.\<close>

definition isFcmTokenChar :: "char \<Rightarrow> bool" where
  "isFcmTokenChar c =
     (let k = (of_char c :: nat)
      in (65 \<le> k \<and> k \<le> 90) \<or> (97 \<le> k \<and> k \<le> 122) \<or> (48 \<le> k \<and> k \<le> 57) \<or>
         c = CHR '':'' \<or> c = CHR ''_'' \<or> c = CHR ''-'')"

definition FcmProvider_validateChannelValue :: "string \<Rightarrow> bool" where
  "FcmProvider_validateChannelValue channelValue =
     (140 \<le> length channelValue \<and> list_all isFcmTokenChar channelValue)"

text \<open>\<^verbatim>\<open>toLowerCase\<close> on the code units 0 to 255.\<close>

definition toLowerCase :: "string \<Rightarrow> string" where
  "toLowerCase str =
     map (\<lambda>c. let k = (of_char c :: nat)
              in if (65 \<le> k \<and> k \<le> 90) \<or> (192 \<le> k \<and> k \<le> 222 \<and> k \<noteq> 215)
                 then char_of (k + 32) else c) str"

text \<open>The decimal digits of a number, as a template literal renders it.\<close>

fun decimal :: "nat \<Rightarrow> string" where
  "decimal n = (if n < 10 then [char_of (48 + n)] else decimal (n div 10) @ [char_of (48 + n mod 10)])"

text \<open>
  The outcome of one transport of the email provider: \<^verbatim>\<open>success\<close> and \<^verbatim>\<open>errorMessage\<close>.
  The console transport returns \<^verbatim>\<open>true\<close> and leaves the message undefined.
\<close>

record transport_result =
  t_success :: bool
  t_errorMessage :: "string option"

definition sendViaConsole :: "string \<Rightarrow> NotificationPayload \<Rightarrow> 'w \<Rightarrow> transport_result \<times> 'w" where
  "sendViaConsole channelValue payload w = (\<lparr>t_success = True, t_errorMessage = None\<rparr>, w)"

definition sendViaSendGrid ::
  "'w environment \<Rightarrow> string \<Rightarrow> NotificationPayload \<Rightarrow> 'w \<Rightarrow> transport_result \<times> 'w" where
  "sendViaSendGrid env channelValue payload w =
     (let apiKey = config_get env ''SENDGRID_API_KEY'' [] in
      if apiKey = []
      then (\<lparr>t_success = False, t_errorMessage = Some ''SendGrid API key not configured''\<rparr>, w)
      else
        (case fetch_sendgrid env apiKey channelValue payload w of
           (Inl error, w') \<Rightarrow>
             (\<lparr>t_success = False,
               t_errorMessage = Some (''SendGrid error: '' @ thrownToString error)\<rparr>, w')
         | (Inr response, w') \<Rightarrow>
             (if \<not> sg_ok response
              then (case sg_text response of
                      Inl error \<Rightarrow>
                        (\<lparr>t_success = False,
                          t_errorMessage = Some (''SendGrid error: '' @ thrownToString error)\<rparr>, w')
                    | Inr errorText \<Rightarrow>
                        (\<lparr>t_success = False,
                          t_errorMessage =
                            Some (''SendGrid API error: '' @ decimal (sg_status response) @ '' - ''
                                  @ errorText)\<rparr>, w'))
              else (\<lparr>t_success = True, t_errorMessage = None\<rparr>, w'))))"

definition sendViaAwsSes ::
  "'w environment \<Rightarrow> string \<Rightarrow> NotificationPayload \<Rightarrow> 'w \<Rightarrow> transport_result \<times> 'w" where
  "sendViaAwsSes env channelValue payload w =
     (if falsy (config env ''AWS_ACCESS_KEY_ID'') \<or> falsy (config env ''AWS_SECRET_ACCESS_KEY'')
         \<or> falsy (config env ''AWS_REGION'')
      then (\<lparr>t_success = False,
             t_errorMessage = Some ''AWS SES credentials not fully configured''\<rparr>, w)
      else (\<lparr>t_success = True, t_errorMessage = None\<rparr>, w))"

definition sendViaNodemailer ::
  "'w environment \<Rightarrow> string \<Rightarrow> NotificationPayload \<Rightarrow> 'w \<Rightarrow> transport_result \<times> 'w" where
  "sendViaNodemailer env channelValue payload w =
     (if falsy (config env ''SMTP_HOST'') \<or> falsy (config env ''SMTP_PORT'')
      then (\<lparr>t_success = False, t_errorMessage = Some ''SMTP configuration incomplete''\<rparr>, w)
      else (\<lparr>t_success = True, t_errorMessage = None\<rparr>, w))"

text \<open>
  \<^verbatim>\<open>EmailProvider.send\<close>. Every transport catches what it throws, so the \<^verbatim>\<open>catch\<close> of
  \<^verbatim>\<open>send\<close> itself has nothing to catch here and the result is always \<open>Inr\<close>.
\<close>

definition EmailProvider_send ::
  "'w environment \<Rightarrow> string \<Rightarrow> NotificationPayload \<Rightarrow> Metadata \<Rightarrow> 'w \<Rightarrow> (thrown + DeliveryResult) \<times> 'w" where
  "EmailProvider_send env channelValue payload metadata w =
     (if \<not> EmailProvider_validateChannelValue channelValue
      then (Inr \<lparr>success = False, status = DELIVERY_FAILED,
                 errorMessage = Some ''Invalid email address format''\<rparr>, w)
      else
        (let provider = toLowerCase (config_get env ''EMAIL_PROVIDER'' ''console'') in
         (case (if provider = ''console'' then sendViaConsole channelValue payload w
                else if provider = ''sendgrid'' then sendViaSendGrid env channelValue payload w
                else if provider = ''aws-ses'' then sendViaAwsSes env channelValue payload w
                else if provider = ''nodemailer'' then sendViaNodemailer env channelValue payload w
                else sendViaConsole channelValue payload w) of
            (t, w') \<Rightarrow>
              (if t_success t
               then (Inr \<lparr>success = True, status = DELIVERY_DELIVERED, errorMessage = None\<rparr>, w')
               else (Inr \<lparr>success = False, status = DELIVERY_FAILED,
                          errorMessage = t_errorMessage t\<rparr>, w')))))"

definition EmailProvider :: "'w environment \<Rightarrow> 'w ChannelProvider" where
  "EmailProvider env =
     \<lparr>send = EmailProvider_send env, validateChannelValue = EmailProvider_validateChannelValue\<rparr>"

text \<open>
  \<^verbatim>\<open>FcmProvider.send\<close>. A throw of the HTTP call or of reading its body is caught by the
  \<^verbatim>\<open>catch\<close> of \<^verbatim>\<open>send\<close>, which returns a failure with the message of the error.
\<close>

definition FcmProvider_send ::
  "'w environment \<Rightarrow> string \<Rightarrow> NotificationPayload \<Rightarrow> Metadata \<Rightarrow> 'w \<Rightarrow> (thrown + DeliveryResult) \<times> 'w" where
  "FcmProvider_send env channelValue payload metadata w =
     (let serverKey = config_get env ''FCM_SERVER_KEY'' [] in
      if \<not> FcmProvider_validateChannelValue channelValue
      then (Inr \<lparr>success = False, status = DELIVERY_FAILED,
                 errorMessage = Some ''Invalid FCM token format''\<rparr>, w)
      else if serverKey = []
      then (Inr \<lparr>success = False, status = DELIVERY_FAILED,
                 errorMessage = Some ''FCM server key not configured''\<rparr>, w)
      else
        (case fetch_fcm env serverKey channelValue payload metadata w of
           (Inl error, w') \<Rightarrow>
             (Inr \<lparr>success = False, status = DELIVERY_FAILED,
                   errorMessage = Some (errorMessageOf error)\<rparr>, w')
         | (Inr response, w') \<Rightarrow>
             (if fcm_ok response \<and> fcm_success_is_1 response
              then (Inr \<lparr>success = True, status = DELIVERY_DELIVERED, errorMessage = None\<rparr>, w')
              else (Inr \<lparr>success = False, status = DELIVERY_FAILED,
                         errorMessage =
                           Some (case fcm_first_error response of
                                   None \<Rightarrow> ''FCM API error''
                                 | Some e \<Rightarrow> if e = [] then ''FCM API error'' else e)\<rparr>, w'))))"

definition FcmProvider :: "'w environment \<Rightarrow> 'w ChannelProvider" where
  "FcmProvider env =
     \<lparr>send = FcmProvider_send env, validateChannelValue = FcmProvider_validateChannelValue\<rparr>"

text \<open>The factory as the module wires it: the two providers above, nothing else.\<close>

definition NotificationProviderFactory :: "'w environment \<Rightarrow> 'w NotificationProviderFactory" where
  "NotificationProviderFactory env = registerProviders (EmailProvider env) (FcmProvider env)"

section \<open>The store\<close>

text \<open>
  The tables behind the persistence client, each a list of rows in insertion order.
\<close>

record db =
  users :: "User list"
  notifications :: "Notification list"
  notificationChannels :: "NotificationChannel list"
  notificationDeliveries :: "NotificationDelivery list"

text \<open>The store gives a new row an identity that no row of the table has.\<close>

definition freshId :: "Id list \<Rightarrow> Id" where
  "freshId ids = Suc (fold max ids 0)"

definition user_findUnique :: "db \<Rightarrow> Id \<Rightarrow> User option" where
  "user_findUnique s i = find (\<lambda>u. u_id u = i) (users s)"

text \<open>
  Modelled from the spec: the relations of the schema file \<^verbatim>\<open>prisma/schema.prisma\<close>, which
  is not among the sources. A notification has one sender and one recipient (the service
  reads \<^verbatim>\<open>notification.sender.name\<close> without a check), so a create whose sender or
  recipient has no row is refused (code P2003) and leaves the table as it was.
\<close>

definition notification_create ::
  "string \<Rightarrow> string \<Rightarrow> NotificationType \<Rightarrow> Id \<Rightarrow> Id \<Rightarrow> NotificationStatus \<Rightarrow> db
     \<Rightarrow> (exception + Notification \<times> User) \<times> db" where
  "notification_create title message type senderId recipientId st s =
     (case user_findUnique s senderId of
        None \<Rightarrow> (Inl (PrismaClientKnownRequestError ''P2003''), s)
      | Some sender \<Rightarrow>
          (case user_findUnique s recipientId of
             None \<Rightarrow> (Inl (PrismaClientKnownRequestError ''P2003''), s)
           | Some recipient \<Rightarrow>
               (let notification =
                      \<lparr>n_id = freshId (map n_id (notifications s)), n_title = title,
                       n_message = message, n_type = type, n_senderId = senderId,
                       n_recipientId = recipientId, n_status = st\<rparr>
                in (Inr (notification, sender),
                    s\<lparr>notifications := notifications s @ [notification]\<rparr>))))"

definition notification_update ::
  "Id \<Rightarrow> NotificationStatus \<Rightarrow> db \<Rightarrow> (exception + Notification) \<times> db" where
  "notification_update i st s =
     (case find (\<lambda>n. n_id n = i) (notifications s) of
        None \<Rightarrow> (Inl (PrismaClientKnownRequestError ''P2025''), s)
      | Some n \<Rightarrow>
          (Inr (n\<lparr>n_status := st\<rparr>),
           s\<lparr>notifications :=
               map (\<lambda>x. if n_id x = i then x\<lparr>n_status := st\<rparr> else x) (notifications s)\<rparr>))"

text \<open>
  Modelled from the spec: the unique index of the channel table in the schema file
  \<^verbatim>\<open>prisma/schema.prisma\<close>, which is not among the sources. The triple of owner, kind and
  address of a channel is unique; \<^verbatim>\<open>prisma/seed.ts\<close> addresses a channel by the compound
  key \<^verbatim>\<open>userId_type_value\<close>, which the client has only for that index. A create that
  repeats a triple is refused (code P2002), and so is one whose owner has no row (code
  P2003); a refused create leaves the table as it was.
\<close>

definition notificationChannel_create ::
  "Id \<Rightarrow> NotificationChannelType \<Rightarrow> string \<Rightarrow> bool \<Rightarrow> Metadata \<Rightarrow> db
     \<Rightarrow> (exception + NotificationChannel) \<times> db" where
  "notificationChannel_create userId type v isActive metadata s =
     (case user_findUnique s userId of
        None \<Rightarrow> (Inl (PrismaClientKnownRequestError ''P2003''), s)
      | Some owner \<Rightarrow>
          (if list_ex (\<lambda>c. c_userId c = userId \<and> c_type c = type \<and> c_value c = v)
                (notificationChannels s)
           then (Inl (PrismaClientKnownRequestError ''P2002''), s)
           else
             (let channel =
                    \<lparr>c_id = freshId (map c_id (notificationChannels s)), c_userId = userId,
                     c_type = type, c_value = v, c_isActive = isActive, c_isVerified = False,
                     c_metadata = metadata\<rparr>
              in (Inr channel, s\<lparr>notificationChannels := notificationChannels s @ [channel]\<rparr>))))"

text \<open>
  A delivery row refers to the notification just created and to a channel read from the
  store, so its create is not refused. The retry counter of a new delivery row and the
  verified flag of a new channel, which the service does not set, take the defaults of the
  schema: zero and false.
\<close>

definition notificationDelivery_create ::
  "Id \<Rightarrow> Id \<Rightarrow> NotificationDeliveryStatus \<Rightarrow> Date option \<Rightarrow> Date option \<Rightarrow> Date option
     \<Rightarrow> string option \<Rightarrow> db \<Rightarrow> NotificationDelivery \<times> db" where
  "notificationDelivery_create notificationId channelId st sentAt deliveredAt failedAt msg s =
     (let delivery =
            \<lparr>d_id = freshId (map d_id (notificationDeliveries s)),
             d_notificationId = notificationId, d_channelId = channelId, d_status = st,
             d_sentAt = sentAt, d_deliveredAt = deliveredAt, d_failedAt = failedAt,
             d_errorMessage = msg, d_retryCount = 0\<rparr>
      in (delivery, s\<lparr>notificationDeliveries := notificationDeliveries s @ [delivery]\<rparr>))"

section \<open>The notification service\<close>

text \<open>
  \<^verbatim>\<open>notifications.service.ts\<close>. Every operation takes the store (and, where it sends, the
  world and the clock \<open>now\<close> behind \<^verbatim>\<open>new Date()\<close>) and returns its result with the store
  after it; a thrown exception is the result \<open>Inl\<close>.
\<close>

record ChannelDeliveryResult = DeliveryResult +
  deliveryId :: Id
  channelType :: NotificationChannelType
  channelValue :: string
  retryCount :: nat

record NotificationChannelResponseDto =
  cr_id :: Id
  cr_type :: NotificationChannelType
  cr_value :: string
  cr_isActive :: bool
  cr_isVerified :: bool
  cr_metadata :: Metadata

definition getDefaultChannels :: "NotificationChannel list \<Rightarrow> NotificationChannelType list" where
  "getDefaultChannels userChannels = map c_type userChannels"

text \<open>
  The loop of \<^verbatim>\<open>sendToChannels\<close>, one iteration per channel in order. The factory's
  \<open>sendNotification\<close> returns a result whatever the provider does and the create of the
  delivery row is not refused, so the \<^verbatim>\<open>catch\<close> of the loop body has nothing to catch
  here. The three stamps of one row read the clock once.
\<close>

fun sendToChannels ::
  "'w NotificationProviderFactory \<Rightarrow> ('w \<Rightarrow> Date) \<Rightarrow> Notification \<times> User \<Rightarrow> NotificationChannel list
     \<Rightarrow> db \<Rightarrow> 'w \<Rightarrow> ChannelDeliveryResult list \<times> db \<times> 'w" where
  "sendToChannels providerFactory now notification [] s w = ([], s, w)"
| "sendToChannels providerFactory now notification (channel # channels) s w =
     (case sendNotification providerFactory (c_type channel) (c_value channel)
             \<lparr>p_title = n_title (fst notification), p_message = n_message (fst notification),
              p_type = n_type (fst notification), p_senderName = u_name (snd notification),
              p_senderEmail = u_email (snd notification)\<rparr>
             (c_metadata channel) w of
        (result, w1) \<Rightarrow>
          (case notificationDelivery_create (n_id (fst notification)) (c_id channel) (status result)
                  (if success result then Some (now w1) else None)
                  (if status result = DELIVERY_DELIVERED then Some (now w1) else None)
                  (if \<not> success result then Some (now w1) else None)
                  (errorMessage result) s of
             (delivery, s1) \<Rightarrow>
               (case sendToChannels providerFactory now notification channels s1 w1 of
                  (deliveryResults, s2, w2) \<Rightarrow>
                    (\<lparr>success = success result, status = status result,
                      errorMessage = errorMessage result, deliveryId = d_id delivery,
                      channelType = c_type channel, channelValue = c_value channel,
                      retryCount = d_retryCount delivery\<rparr> # deliveryResults, s2, w2))))"

text \<open>Lines 78 to 88 of \<^verbatim>\<open>createNotification\<close>: the status reduced from the results.\<close>

definition aggregateStatus :: "ChannelDeliveryResult list \<Rightarrow> NotificationStatus" where
  "aggregateStatus deliveryResults =
     (let hasSuccessfulDeliveries = list_ex (\<lambda>result. success result) deliveryResults;
          hasFailedDeliveries = list_ex (\<lambda>result. \<not> success result) deliveryResults
      in if hasSuccessfulDeliveries \<and> \<not> hasFailedDeliveries then SENT
         else if hasSuccessfulDeliveries \<and> hasFailedDeliveries then SENT
         else FAILED)"

text \<open>
  Lines 27 to 33 and 69 to 74: the active channels of the recipient, filtered to the kinds
  to use. A supplied list, empty or not, is used as it is; without one the kinds are those
  of the active channels themselves.
\<close>

definition activeChannelsOf :: "db \<Rightarrow> Id \<Rightarrow> NotificationChannel list" where
  "activeChannelsOf s userId =
     filter (\<lambda>channel. c_userId channel = userId \<and> c_isActive channel) (notificationChannels s)"

definition resolveChannels ::
  "NotificationChannel list \<Rightarrow> NotificationChannelType list option \<Rightarrow> NotificationChannel list" where
  "resolveChannels recipientChannels channels =
     (let channelsToUse =
            (case channels of Some kinds \<Rightarrow> kinds | None \<Rightarrow> getDefaultChannels recipientChannels)
      in filter (\<lambda>channel. c_type channel \<in> set channelsToUse) recipientChannels)"

text \<open>
  The response maps each result to a delivery object. A result has no stamps of its own, so
  \<^verbatim>\<open>result.sentAt\<close>, \<^verbatim>\<open>result.deliveredAt\<close> and \<^verbatim>\<open>result.failedAt\<close> are undefined in
  the response; the stamps are in the delivery rows.
\<close>

definition toDeliveryDto :: "ChannelDeliveryResult \<Rightarrow> NotificationDeliveryDto" where
  "toDeliveryDto result =
     \<lparr>dd_id = deliveryId result, dd_channelType = channelType result,
      dd_channelValue = channelValue result, dd_status = status result, dd_sentAt = None,
      dd_deliveredAt = None, dd_failedAt = None, dd_errorMessage = errorMessage result,
      dd_retryCount = retryCount result\<rparr>"

text \<open>
  \<^verbatim>\<open>createNotification\<close> in two parts. \<open>dispatchRound\<close> is lines 24 to 75: the check of
  the recipient, the create of the notification as PENDING and the sends; it ends with the
  exception thrown or with the local variables \<^verbatim>\<open>notification\<close> and \<^verbatim>\<open>deliveryResults\<close>.
  \<open>createNotification\<close> goes on with lines 77 to 116: the reduction, the write of the
  status and the response.
\<close>

definition dispatchRound ::
  "'w NotificationProviderFactory \<Rightarrow> ('w \<Rightarrow> Date) \<Rightarrow> Id \<Rightarrow> CreateNotificationDto \<Rightarrow> db \<Rightarrow> 'w
     \<Rightarrow> (exception + (Notification \<times> User) \<times> ChannelDeliveryResult list) \<times> db \<times> 'w" where
  "dispatchRound providerFactory now senderId dto s w =
     (case user_findUnique s (dto_recipientId dto) of
        None \<Rightarrow> (Inl (NotFoundException ''Recipient not found''), s, w)
      | Some recipient \<Rightarrow>
          (case notification_create (dto_title dto) (dto_message dto) (dto_type dto) senderId
                  (dto_recipientId dto) PENDING s of
             (Inl e, s1) \<Rightarrow> (Inl e, s1, w)
           | (Inr notification, s1) \<Rightarrow>
               (case sendToChannels providerFactory now notification
                       (resolveChannels (activeChannelsOf s (u_id recipient)) (dto_channels dto))
                       s1 w of
                  (deliveryResults, s2, w2) \<Rightarrow> (Inr (notification, deliveryResults), s2, w2))))"

definition createNotification ::
  "'w NotificationProviderFactory \<Rightarrow> ('w \<Rightarrow> Date) \<Rightarrow> Id \<Rightarrow> CreateNotificationDto \<Rightarrow> db \<Rightarrow> 'w
     \<Rightarrow> (exception + NotificationResponseDto) \<times> db \<times> 'w" where
  "createNotification providerFactory now senderId dto s w =
     (case dispatchRound providerFactory now senderId dto s w of
        (Inl e, s2, w2) \<Rightarrow> (Inl e, s2, w2)
      | (Inr (notification, deliveryResults), s2, w2) \<Rightarrow>
          (let notificationStatus = aggregateStatus deliveryResults in
           (case notification_update (n_id (fst notification)) notificationStatus s2 of
              (Inl e, s3) \<Rightarrow> (Inl e, s3, w2)
            | (Inr updated, s3) \<Rightarrow>
                (Inr \<lparr>r_id = n_id (fst notification), r_title = n_title (fst notification),
                      r_message = n_message (fst notification),
                      r_type = n_type (fst notification), r_status = notificationStatus,
                      r_senderId = n_senderId (fst notification),
                      r_recipientId = n_recipientId (fst notification),
                      r_deliveries = Some (map toDeliveryDto deliveryResults)\<rparr>,
                 s3, w2))))"

definition markAsRead :: "Id \<Rightarrow> Id \<Rightarrow> db \<Rightarrow> (exception + NotificationResponseDto) \<times> db" where
  "markAsRead userId notificationId s =
     (case find (\<lambda>n. n_id n = notificationId \<and> n_recipientId n = userId) (notifications s) of
        None \<Rightarrow> (Inl (NotFoundException ''Notification not found''), s)
      | Some notification \<Rightarrow>
          (case notification_update notificationId READ s of
             (Inl e, s1) \<Rightarrow> (Inl e, s1)
           | (Inr updatedNotification, s1) \<Rightarrow>
               (Inr \<lparr>r_id = n_id updatedNotification, r_title = n_title updatedNotification,
                     r_message = n_message updatedNotification,
                     r_type = n_type updatedNotification, r_status = n_status updatedNotification,
                     r_senderId = n_senderId updatedNotification,
                     r_recipientId = n_recipientId updatedNotification, r_deliveries = None\<rparr>,
                s1)))"

definition toChannelResponse :: "NotificationChannel \<Rightarrow> NotificationChannelResponseDto" where
  "toChannelResponse channel =
     \<lparr>cr_id = c_id channel, cr_type = c_type channel, cr_value = c_value channel,
      cr_isActive = c_isActive channel, cr_isVerified = c_isVerified channel,
      cr_metadata = c_metadata channel\<rparr>"

definition createNotificationChannel ::
  "'w NotificationProviderFactory \<Rightarrow> Id \<Rightarrow> CreateNotificationChannelDto \<Rightarrow> db
     \<Rightarrow> (exception + NotificationChannelResponseDto) \<times> db" where
  "createNotificationChannel providerFactory userId dto s =
     (let isValid = factory_validateChannelValue providerFactory (cc_type dto) (cc_value dto) in
      if \<not> isValid
      then (Inl (Error (''Invalid '' @ channelTypeString (cc_type dto) @ '' value format'')), s)
      else
        (case notificationChannel_create userId (cc_type dto) (cc_value dto)
                (case cc_isActive dto of None \<Rightarrow> True | Some b \<Rightarrow> b)
                (case cc_metadata dto of None \<Rightarrow> [] | Some m \<Rightarrow> m) s of
           (Inl e, s1) \<Rightarrow> (Inl e, s1)
         | (Inr channel, s1) \<Rightarrow> (Inr (toChannelResponse channel), s1)))"

text \<open>An update leaves a column alone when the request does not carry it.\<close>

definition updateNotificationChannel ::
  "Id \<Rightarrow> Id \<Rightarrow> UpdateNotificationChannelDto \<Rightarrow> db
     \<Rightarrow> (exception + NotificationChannelResponseDto) \<times> db" where
  "updateNotificationChannel userId channelId dto s =
     (case find (\<lambda>c. c_id c = channelId \<and> c_userId c = userId) (notificationChannels s) of
        None \<Rightarrow> (Inl (NotFoundException ''Notification channel not found''), s)
      | Some channel \<Rightarrow>
          (let upd = (\<lambda>c. c\<lparr>c_isActive := (case uc_isActive dto of None \<Rightarrow> c_isActive c | Some b \<Rightarrow> b),
                            c_isVerified := (case uc_isVerified dto of None \<Rightarrow> c_isVerified c | Some b \<Rightarrow> b),
                            c_metadata := (case uc_metadata dto of None \<Rightarrow> c_metadata c | Some m \<Rightarrow> m)\<rparr>)
           in (case find (\<lambda>c. c_id c = channelId) (notificationChannels s) of
                 None \<Rightarrow> (Inl (PrismaClientKnownRequestError ''P2025''), s)
               | Some c0 \<Rightarrow>
                   (Inr (toChannelResponse (upd c0)),
                    s\<lparr>notificationChannels :=
                        map (\<lambda>c. if c_id c = channelId then upd c else c) (notificationChannels s)\<rparr>))))"

section \<open>Requests in flight\<close>

text \<open>
  A request does not run in one piece. \<^verbatim>\<open>createNotification\<close> awaits the lookup of the
  recipient (line 27), the create of the notification as PENDING (line 41), then for every
  target the send (line 342) and the create of the delivery row (line 350), and last the
  write of the status (line 90); \<^verbatim>\<open>markAsRead\<close> awaits the lookup (line 175) and the
  write of READ (line 186). No transaction spans these calls, so between any two of them
  other requests run. A request in flight is the point it has reached with the local
  variables it holds there:
  \<^item> \<open>Found\<close>: the recipient is found; the sender, the request and the active channels of
    the recipient are held;
  \<^item> \<open>Sending\<close>: the notification is created and the loop of \<^verbatim>\<open>sendToChannels\<close> is at
    the head of the channels still to do, with the results pushed so far; with no channel
    left the next call is the write of the status;
  \<^item> \<open>Sent\<close>: the send to a channel has returned its result and the stamps are taken; the
    create of the delivery row is next;
  \<^item> \<open>Reading\<close>: \<^verbatim>\<open>markAsRead\<close> has found the notification of the caller; the write of
    READ is next.
\<close>

datatype inflight =
    Found Id CreateNotificationDto "NotificationChannel list"
  | Sending "Notification \<times> User" "NotificationChannel list" "ChannelDeliveryResult list"
  | Sent "Notification \<times> User" NotificationChannel DeliveryResult Date "NotificationChannel list"
      "ChannelDeliveryResult list"
  | Reading Id Id

text \<open>
  \<open>resume\<close> runs a request in flight up to its next await: one call to the store or one
  send. It returns the point reached, or \<open>None\<close> when the request has ended (with its
  response or with an exception, which are dropped here), and the store and world after the
  call.
\<close>

fun resume ::
  "'w NotificationProviderFactory \<Rightarrow> ('w \<Rightarrow> Date) \<Rightarrow> inflight \<Rightarrow> db \<Rightarrow> 'w
     \<Rightarrow> inflight option \<times> db \<times> 'w" where
  "resume providerFactory now (Found senderId dto recipientChannels) s w =
     (case notification_create (dto_title dto) (dto_message dto) (dto_type dto) senderId
             (dto_recipientId dto) PENDING s of
        (Inl e, s1) \<Rightarrow> (None, s1, w)
      | (Inr notification, s1) \<Rightarrow>
          (Some (Sending notification (resolveChannels recipientChannels (dto_channels dto)) []),
           s1, w))"
| "resume providerFactory now (Sending notification [] deliveryResults) s w =
     (case notification_update (n_id (fst notification)) (aggregateStatus deliveryResults) s of
        (r, s1) \<Rightarrow> (None, s1, w))"
| "resume providerFactory now (Sending notification (channel # channels) deliveryResults) s w =
     (case sendNotification providerFactory (c_type channel) (c_value channel)
             \<lparr>p_title = n_title (fst notification), p_message = n_message (fst notification),
              p_type = n_type (fst notification), p_senderName = u_name (snd notification),
              p_senderEmail = u_email (snd notification)\<rparr>
             (c_metadata channel) w of
        (result, w1) \<Rightarrow>
          (Some (Sent notification channel result (now w1) channels deliveryResults), s, w1))"
| "resume providerFactory now (Sent notification channel result stamp channels deliveryResults) s w =
     (case notificationDelivery_create (n_id (fst notification)) (c_id channel) (status result)
             (if success result then Some stamp else None)
             (if status result = DELIVERY_DELIVERED then Some stamp else None)
             (if \<not> success result then Some stamp else None)
             (errorMessage result) s of
        (delivery, s1) \<Rightarrow>
          (Some (Sending notification channels
                   (deliveryResults @
                    [\<lparr>success = success result, status = status result,
                      errorMessage = errorMessage result, deliveryId = d_id delivery,
                      channelType = c_type channel, channelValue = c_value channel,
                      retryCount = d_retryCount delivery\<rparr>])),
           s1, w))"
| "resume providerFactory now (Reading userId notificationId) s w =
     (case notification_update notificationId READ s of (r, s1) \<Rightarrow> (None, s1, w))"

text \<open>
  The service as a whole: the store, the world and the requests in flight. An action is the
  arrival of a request, which runs it up to its first await, or the resumption of the
  request at a place in the list, which runs it up to its next. The two channel operations
  read and write no notification and are taken whole. \<^verbatim>\<open>deleteNotificationChannel\<close> and
  \<^verbatim>\<open>testChannel\<close> write no notification either; what a delete does to the delivery rows of
  the channel is decided by the schema, and they are not among the actions.
\<close>

datatype action =
    CallCreateNotification Id CreateNotificationDto
  | CallMarkAsRead Id Id
  | CallCreateNotificationChannel Id CreateNotificationChannelDto
  | CallUpdateNotificationChannel Id Id UpdateNotificationChannelDto
  | Resume nat

fun step ::
  "'w NotificationProviderFactory \<Rightarrow> ('w \<Rightarrow> Date) \<Rightarrow> action \<Rightarrow> db \<times> 'w \<times> inflight list
     \<Rightarrow> db \<times> 'w \<times> inflight list" where
  "step providerFactory now (CallCreateNotification senderId dto) (s, w, requests) =
     (case user_findUnique s (dto_recipientId dto) of
        None \<Rightarrow> (s, w, requests)
      | Some recipient \<Rightarrow>
          (s, w, requests @ [Found senderId dto (activeChannelsOf s (u_id recipient))]))"
| "step providerFactory now (CallMarkAsRead userId notificationId) (s, w, requests) =
     (case find (\<lambda>n. n_id n = notificationId \<and> n_recipientId n = userId) (notifications s) of
        None \<Rightarrow> (s, w, requests)
      | Some notification \<Rightarrow> (s, w, requests @ [Reading userId notificationId]))"
| "step providerFactory now (CallCreateNotificationChannel userId dto) (s, w, requests) =
     (snd (createNotificationChannel providerFactory userId dto s), w, requests)"
| "step providerFactory now (CallUpdateNotificationChannel userId channelId dto) (s, w, requests) =
     (snd (updateNotificationChannel userId channelId dto s), w, requests)"
| "step providerFactory now (Resume k) (s, w, requests) =
     (if k < length requests
      then (case resume providerFactory now (requests ! k) s w of
              (None, s1, w1) \<Rightarrow> (s1, w1, take k requests @ drop (Suc k) requests)
            | (Some request, s1, w1) \<Rightarrow> (s1, w1, requests[k := request]))
      else (s, w, requests))"

definition run ::
  "'w NotificationProviderFactory \<Rightarrow> ('w \<Rightarrow> Date) \<Rightarrow> action list \<Rightarrow> db \<times> 'w \<times> inflight list
     \<Rightarrow> db \<times> 'w \<times> inflight list" where
  "run providerFactory now actions system = fold (step providerFactory now) actions system"

text \<open>
  What the store keeps true of the notifications and what holds of every \<^verbatim>\<open>markAsRead\<close>
  in flight: the identities are distinct, and the notification to be marked has a row whose
  recipient is the caller. \<open>dispatches i\<close> says of a request in flight that it is the
  \<^verbatim>\<open>createNotification\<close> of notification \<open>i\<close>, past the create and before the write of
  the status.
\<close>

fun awaitsOwnedRow :: "db \<Rightarrow> inflight \<Rightarrow> bool" where
  "awaitsOwnedRow s (Reading userId notificationId) =
     list_ex (\<lambda>n. n_id n = notificationId \<and> n_recipientId n = userId) (notifications s)"
| "awaitsOwnedRow s request = True"

definition consistent :: "db \<Rightarrow> inflight list \<Rightarrow> bool" where
  "consistent s requests =
     (distinct (map n_id (notifications s)) \<and> list_all (awaitsOwnedRow s) requests)"

fun dispatches :: "Id \<Rightarrow> inflight \<Rightarrow> bool" where
  "dispatches i (Sending notification channels deliveryResults) = (n_id (fst notification) = i)"
| "dispatches i (Sent notification channel result stamp channels deliveryResults) =
     (n_id (fst notification) = i)"
| "dispatches i request = False"

section \<open>The sends of a round, one by one\<close>

text \<open>
  One send per target, without the store: for each channel of the list, in order and each in
  the world the one before left, the provider registered for its kind is called once with
  the address, the payload and the metadata of the channel; a kind without provider gives
  the failure that names it and calls nothing, and a send that throws gives the failure
  with the message of the fault. This is section 4.4, step 2, of the specification, and is
  what the results and the world of a round are compared with.
\<close>

fun sendEach ::
  "'w NotificationProviderFactory \<Rightarrow> NotificationPayload \<Rightarrow> NotificationChannel list \<Rightarrow> 'w
     \<Rightarrow> DeliveryResult list \<times> 'w" where
  "sendEach providers payload [] w = ([], w)"
| "sendEach providers payload (channel # channels) w =
     (case providers (c_type channel) of
        None \<Rightarrow>
          (case sendEach providers payload channels w of
             (results, w2) \<Rightarrow>
               (\<lparr>success = False, status = DELIVERY_FAILED,
                 errorMessage = Some (''No provider available for channel type: ''
                                      @ channelTypeString (c_type channel))\<rparr> # results, w2))
      | Some provider \<Rightarrow>
          (case send provider (c_value channel) payload (c_metadata channel) w of
             (outcome, w1) \<Rightarrow>
               (case sendEach providers payload channels w1 of
                  (results, w2) \<Rightarrow>
                    ((case outcome of
                        Inr result \<Rightarrow> result
                      | Inl error \<Rightarrow>
                          \<lparr>success = False, status = DELIVERY_FAILED,
                           errorMessage = Some (errorMessageOf error)\<rparr>) # results, w2))))"

text \<open>
  The two shapes of an outcome of the email and the push provider: a success is reported as
  DELIVERED without an error message, a failure as FAILED with one.
\<close>

definition outcomeShape :: "bool \<Rightarrow> NotificationDeliveryStatus \<Rightarrow> string option \<Rightarrow> bool" where
  "outcomeShape succ st msg =
     ((succ \<and> st = DELIVERY_DELIVERED \<and> msg = None) \<or>
      (\<not> succ \<and> st = DELIVERY_FAILED \<and> msg \<noteq> None))"

section \<open>A small store to run the operations on\<close>

text \<open>
  A teacher and a student. The student owns two active email channels, an active SMS
  channel and an email channel switched off, and has one failed and one read notification.
  Nothing is configured, so the email provider prints to the console and the push provider
  has no server key; the faulty provider throws on every send.
\<close>

definition exampleEnv :: "unit environment" where
  "exampleEnv =
     \<lparr>config = (\<lambda>key. None),
      fetch_sendgrid = (\<lambda>apiKey channelValue payload w. (Inl (NonError ''offline''), w)),
      fetch_fcm = (\<lambda>serverKey channelValue payload metadata w. (Inl (NonError ''offline''), w))\<rparr>"

definition exampleNow :: "unit \<Rightarrow> Date" where
  "exampleNow w = 1000"

definition exampleTeacher :: User where
  "exampleTeacher = \<lparr>u_id = 1, u_name = ''Teacher'', u_email = ''teacher@school.com''\<rparr>"

definition exampleStudent :: User where
  "exampleStudent = \<lparr>u_id = 2, u_name = ''Student'', u_email = ''student@school.com''\<rparr>"

definition exampleFailedNotification :: Notification where
  "exampleFailedNotification =
     \<lparr>n_id = 1, n_title = ''Old'', n_message = ''first'', n_type = SYSTEM, n_senderId = 1,
      n_recipientId = 2, n_status = FAILED\<rparr>"

definition exampleReadNotification :: Notification where
  "exampleReadNotification =
     \<lparr>n_id = 2, n_title = ''Seen'', n_message = ''second'', n_type = GRADE, n_senderId = 1,
      n_recipientId = 2, n_status = READ\<rparr>"

definition exampleEmailChannel :: NotificationChannel where
  "exampleEmailChannel =
     \<lparr>c_id = 1, c_userId = 2, c_type = EMAIL, c_value = ''student@school.com'',
      c_isActive = True, c_isVerified = True, c_metadata = []\<rparr>"

definition exampleSecondEmailChannel :: NotificationChannel where
  "exampleSecondEmailChannel =
     \<lparr>c_id = 2, c_userId = 2, c_type = EMAIL, c_value = ''parent@home.org'',
      c_isActive = True, c_isVerified = False, c_metadata = []\<rparr>"

definition exampleSmsChannel :: NotificationChannel where
  "exampleSmsChannel =
     \<lparr>c_id = 3, c_userId = 2, c_type = SMS, c_value = ''+15550100'',
      c_isActive = True, c_isVerified = False, c_metadata = []\<rparr>"

definition exampleInactiveChannel :: NotificationChannel where
  "exampleInactiveChannel =
     \<lparr>c_id = 4, c_userId = 2, c_type = EMAIL, c_value = ''old@school.com'',
      c_isActive = False, c_isVerified = True, c_metadata = []\<rparr>"

definition exampleDb :: db where
  "exampleDb =
     \<lparr>users = [exampleTeacher, exampleStudent],
      notifications = [exampleFailedNotification, exampleReadNotification],
      notificationChannels =
        [exampleEmailChannel, exampleSecondEmailChannel, exampleSmsChannel,
         exampleInactiveChannel],
      notificationDeliveries = []\<rparr>"

definition exampleDto :: CreateNotificationDto where
  "exampleDto =
     \<lparr>dto_title = ''Homework'', dto_message = ''Due Friday'', dto_type = ASSIGNMENT,
      dto_recipientId = 2, dto_channels = None\<rparr>"

definition exampleChannelDto :: CreateNotificationChannelDto where
  "exampleChannelDto =
     \<lparr>cc_type = EMAIL, cc_value = ''new@school.com'', cc_isActive = None, cc_metadata = None\<rparr>"

definition exampleSmsChannelDto :: CreateNotificationChannelDto where
  "exampleSmsChannelDto =
     \<lparr>cc_type = SMS, cc_value = ''+15550100'', cc_isActive = None, cc_metadata = None\<rparr>"

definition examplePayload :: NotificationPayload where
  "examplePayload =
     \<lparr>p_title = ''Old'', p_message = ''first'', p_type = SYSTEM, p_senderName = ''Teacher'',
      p_senderEmail = ''teacher@school.com''\<rparr>"



text \<open>
  A provider that counts: its send succeeds and adds one to the world, which is the number
  of sends so far. The counting factory has it for email and nothing else.
\<close>

definition countingProvider :: "nat ChannelProvider" where
  "countingProvider =
     \<lparr>send = (\<lambda>channelValue payload metadata w.
                 (Inr \<lparr>success = True, status = DELIVERY_DELIVERED, errorMessage = None\<rparr>, Suc w)),
      validateChannelValue = EmailProvider_validateChannelValue\<rparr>"

definition exampleCountingFactory :: "nat NotificationProviderFactory" where
  "exampleCountingFactory = Map.empty(EMAIL \<mapsto> countingProvider)"

definition exampleRoundPayload :: NotificationPayload where
  "exampleRoundPayload =
     \<lparr>p_title = ''Homework'', p_message = ''Due Friday'', p_type = ASSIGNMENT,
      p_senderName = ''Teacher'', p_senderEmail = ''teacher@school.com''\<rparr>"

section \<open>Facts about the store\<close>

lemma fold_max_ge: "(a::nat) \<le> fold max xs a \<and> (\<forall>x\<in>set xs. x \<le> fold max xs a)"
proof (induction xs arbitrary: a)
  case Nil
  then show ?case by simp
next
  case (Cons y ys)
  have "max y a \<le> fold max ys (max y a)" using Cons.IH by blast
  moreover have "\<forall>x\<in>set ys. x \<le> fold max ys (max y a)" using Cons.IH by blast
  ultimately show ?case by auto
qed

lemma freshId_notin: "freshId ids \<notin> set ids"
proof
  assume "freshId ids \<in> set ids"
  then have "freshId ids \<le> fold max ids 0" using fold_max_ge by blast
  then show False by (simp add: freshId_def)
qed

lemma find_append_fresh:
  "\<forall>x\<in>set xs. \<not> P x \<Longrightarrow> P y \<Longrightarrow> find P (xs @ [y]) = Some y"
  by (induction xs) auto

lemma find_Some_set: "find P xs = Some x \<Longrightarrow> x \<in> set xs \<and> P x"
  by (auto simp: find_Some_iff)

lemma distinct_map_eq:
  "distinct (map f xs) \<Longrightarrow> x \<in> set xs \<Longrightarrow> y \<in> set xs \<Longrightarrow> f x = f y \<Longrightarrow> x = y"
  by (meson distinct_map inj_onD)

lemma user_findUnique_id: "user_findUnique s i = Some u \<Longrightarrow> u_id u = i"
  by (auto simp: user_findUnique_def find_Some_iff)

lemma notification_create_Inr:
  assumes "notification_create t m ty sid rid st s = (Inr (n, sender), s1)"
  shows "s1 = s\<lparr>notifications := notifications s @ [n]\<rparr> \<and>
         (\<forall>x\<in>set (notifications s). n_id x \<noteq> n_id n)
         \<and> n_status n = st \<and> user_findUnique s sid = Some sender"
proof -
  have n: "n = \<lparr>n_id = freshId (map n_id (notifications s)), n_title = t, n_message = m,
                n_type = ty, n_senderId = sid, n_recipientId = rid, n_status = st\<rparr>"
    and rest: "s1 = s\<lparr>notifications := notifications s @ [n]\<rparr>" "user_findUnique s sid = Some sender"
    using assms by (auto simp: notification_create_def Let_def split: option.splits)
  have "\<forall>x\<in>set (notifications s). n_id x \<noteq> n_id n"
  proof
    fix x assume "x \<in> set (notifications s)"
    then have "n_id x \<in> set (map n_id (notifications s))" by simp
    then show "n_id x \<noteq> n_id n"
      using freshId_notin [of "map n_id (notifications s)"] n by auto
  qed
  then show ?thesis using n rest by simp
qed

lemma notification_update_fresh:
  assumes "\<forall>x\<in>set ns. n_id x \<noteq> i" and "n_id n = i"
  shows "notification_update i st (s\<lparr>notifications := ns @ [n]\<rparr>)
           = (Inr (n\<lparr>n_status := st\<rparr>), s\<lparr>notifications := ns @ [n\<lparr>n_status := st\<rparr>]\<rparr>)"
proof -
  have f: "find (\<lambda>x. n_id x = i) (ns @ [n]) = Some n"
    using assms by (intro find_append_fresh) auto
  have m: "map (\<lambda>x. if n_id x = i then x\<lparr>n_status := st\<rparr> else x) ns = ns"
    using assms(1) by (induction ns) auto
  show ?thesis using assms(2) by (simp add: notification_update_def f m)
qed

lemma notificationDelivery_create_eq:
  "notificationDelivery_create nid cid st sa da fa msg s = (d, s1) \<Longrightarrow>
     s1 = s\<lparr>notificationDeliveries := notificationDeliveries s @ [d]\<rparr> \<and>
     d_notificationId d = nid \<and> d_channelId d = cid \<and> d_status d = st \<and> d_sentAt d = sa \<and>
     d_deliveredAt d = da \<and> d_failedAt d = fa \<and> d_errorMessage d = msg \<and> d_retryCount d = 0"
  by (auto simp: notificationDelivery_create_def Let_def)

section \<open>Facts about the sends of a round\<close>

lemma sendNotification_absent:
  "getProvider F ty = None \<Longrightarrow>
     sendNotification F ty v payload md w =
       (\<lparr>success = False, status = DELIVERY_FAILED,
         errorMessage = Some (''No provider available for channel type: '' @ channelTypeString ty)\<rparr>, w)"
  by (simp add: sendNotification_def)


lemma getProvider_registered:
  "getProvider (registerProviders e f) ty =
     (if ty = FCM then Some f else if ty = EMAIL then Some e else None)"
  by (simp add: getProvider_def registerProviders_def)

lemma sendToChannels_Cons:
  assumes "sendToChannels F now n (c # cs) s w = (rs, s2, w2)"
  shows "\<exists>result w1 delivery s1 rs'.
           sendNotification F (c_type c) (c_value c)
             \<lparr>p_title = n_title (fst n), p_message = n_message (fst n), p_type = n_type (fst n),
              p_senderName = u_name (snd n), p_senderEmail = u_email (snd n)\<rparr>
             (c_metadata c) w = (result, w1) \<and>
           notificationDelivery_create (n_id (fst n)) (c_id c) (status result)
             (if success result then Some (now w1) else None)
             (if status result = DELIVERY_DELIVERED then Some (now w1) else None)
             (if \<not> success result then Some (now w1) else None)
             (errorMessage result) s = (delivery, s1) \<and>
           sendToChannels F now n cs s1 w1 = (rs', s2, w2) \<and>
           rs = \<lparr>success = success result, status = status result,
                  errorMessage = errorMessage result, deliveryId = d_id delivery,
                  channelType = c_type c, channelValue = c_value c,
                  retryCount = d_retryCount delivery\<rparr> # rs'"
proof -
  let ?payload = "\<lparr>p_title = n_title (fst n), p_message = n_message (fst n), p_type = n_type (fst n),
              p_senderName = u_name (snd n), p_senderEmail = u_email (snd n)\<rparr>"
  obtain result w1 where
    sn: "sendNotification F (c_type c) (c_value c) ?payload (c_metadata c) w = (result, w1)"
    by (cases "sendNotification F (c_type c) (c_value c) ?payload (c_metadata c) w")
  obtain delivery s1 where
    dc: "notificationDelivery_create (n_id (fst n)) (c_id c) (status result)
             (if success result then Some (now w1) else None)
             (if status result = DELIVERY_DELIVERED then Some (now w1) else None)
             (if \<not> success result then Some (now w1) else None)
             (errorMessage result) s = (delivery, s1)"
    by (simp add: notificationDelivery_create_def Let_def)
  obtain rs' s2' w2' where rec: "sendToChannels F now n cs s1 w1 = (rs', s2', w2')"
    by (cases "sendToChannels F now n cs s1 w1") auto
  have "sendToChannels F now n (c # cs) s w =
          (\<lparr>success = success result, status = status result,
                  errorMessage = errorMessage result, deliveryId = d_id delivery,
                  channelType = c_type c, channelValue = c_value c,
                  retryCount = d_retryCount delivery\<rparr> # rs', s2', w2')"
    by (simp only: sendToChannels.simps sn dc rec prod.case)
  with assms sn dc rec show ?thesis by simp
qed

lemma sendToChannels_frame:
  "sendToChannels F now n cs s w = (rs, s2, w2) \<Longrightarrow>
     users s2 = users s \<and> notifications s2 = notifications s \<and>
     notificationChannels s2 = notificationChannels s"
proof (induction cs arbitrary: s w rs s2 w2)
  case Nil
  then show ?case by simp
next
  case (Cons c cs)
  then show ?case
    by (auto simp: notificationDelivery_create_def Let_def split: prod.splits)
qed

lemma sendToChannels_length:
  "sendToChannels F now n cs s w = (rs, s2, w2) \<Longrightarrow> length rs = length cs"
proof (induction cs arbitrary: s w rs s2 w2)
  case Nil
  then show ?case by simp
next
  case (Cons c cs)
  then show ?case by (auto split: prod.splits)
qed


lemma sendToChannels_rows:
  assumes "sendToChannels F now n cs s w = (rs, s2, w2)"
    and "\<And>ty v p m w0. Q ty (success (fst (sendNotification F ty v p m w0)))
            (status (fst (sendNotification F ty v p m w0)))
            (errorMessage (fst (sendNotification F ty v p m w0)))"
  shows "\<exists>new. notificationDeliveries s2 = notificationDeliveries s @ new \<and>
           list_all2 (\<lambda>c r. channelType r = c_type c \<and> channelValue r = c_value c \<and>
                            Q (c_type c) (success r) (status r) (errorMessage r)) cs rs \<and>
           list_all2 (\<lambda>c d. d_channelId d = c_id c \<and> d_notificationId d = n_id (fst n)) cs new \<and>
           list_all2 (\<lambda>r d. d_id d = deliveryId r \<and> d_status d = status r \<and>
                            (d_sentAt d \<noteq> None) = success r \<and>
                            (d_deliveredAt d \<noteq> None) = (status r = DELIVERY_DELIVERED) \<and>
                            (d_failedAt d \<noteq> None) = (\<not> success r) \<and>
                            d_errorMessage d = errorMessage r \<and>
                            d_retryCount d = 0 \<and> retryCount r = 0) rs new"
  using assms(1)
proof (induction cs arbitrary: s w rs s2 w2)
  case Nil
  then show ?case by simp
next
  case (Cons c cs)
  obtain result w1 delivery s1 rs' where
    sn: "sendNotification F (c_type c) (c_value c)
             \<lparr>p_title = n_title (fst n), p_message = n_message (fst n), p_type = n_type (fst n),
              p_senderName = u_name (snd n), p_senderEmail = u_email (snd n)\<rparr>
             (c_metadata c) w = (result, w1)" and
    dc: "notificationDelivery_create (n_id (fst n)) (c_id c) (status result)
             (if success result then Some (now w1) else None)
             (if status result = DELIVERY_DELIVERED then Some (now w1) else None)
             (if \<not> success result then Some (now w1) else None)
             (errorMessage result) s = (delivery, s1)" and
    rec: "sendToChannels F now n cs s1 w1 = (rs', s2, w2)" and
    rs: "rs = \<lparr>success = success result, status = status result,
                  errorMessage = errorMessage result, deliveryId = d_id delivery,
                  channelType = c_type c, channelValue = c_value c,
                  retryCount = d_retryCount delivery\<rparr> # rs'"
    using sendToChannels_Cons [OF Cons.prems] by blast
  obtain new' where
    n1: "notificationDeliveries s2 = notificationDeliveries s1 @ new'" and
    n2: "list_all2 (\<lambda>c r. channelType r = c_type c \<and> channelValue r = c_value c \<and>
                            Q (c_type c) (success r) (status r) (errorMessage r)) cs rs'" and
    n3: "list_all2 (\<lambda>c d. d_channelId d = c_id c \<and> d_notificationId d = n_id (fst n)) cs new'" and
    n4: "list_all2 (\<lambda>r d. d_id d = deliveryId r \<and> d_status d = status r \<and>
                            (d_sentAt d \<noteq> None) = success r \<and>
                            (d_deliveredAt d \<noteq> None) = (status r = DELIVERY_DELIVERED) \<and>
                            (d_failedAt d \<noteq> None) = (\<not> success r) \<and>
                            d_errorMessage d = errorMessage r \<and>
                            d_retryCount d = 0 \<and> retryCount r = 0) rs' new'"
    using Cons.IH [OF rec] by blast
  note d = notificationDelivery_create_eq [OF dc]
  have q: "Q (c_type c) (success result) (status result) (errorMessage result)"
    using assms(2) [of "c_type c" "c_value c" "\<lparr>p_title = n_title (fst n),
        p_message = n_message (fst n), p_type = n_type (fst n),
        p_senderName = u_name (snd n), p_senderEmail = u_email (snd n)\<rparr>" "c_metadata c" w] sn
    by simp
  have "notificationDeliveries s2 = notificationDeliveries s @ (delivery # new')"
    using n1 d by simp
  moreover have "list_all2 (\<lambda>c r. channelType r = c_type c \<and> channelValue r = c_value c \<and>
                            Q (c_type c) (success r) (status r) (errorMessage r)) (c # cs) rs"
    using n2 q rs by simp
  moreover have "list_all2 (\<lambda>c d. d_channelId d = c_id c \<and> d_notificationId d = n_id (fst n))
                   (c # cs) (delivery # new')"
    using n3 d by simp
  moreover have "list_all2 (\<lambda>r d. d_id d = deliveryId r \<and> d_status d = status r \<and>
                            (d_sentAt d \<noteq> None) = success r \<and>
                            (d_deliveredAt d \<noteq> None) = (status r = DELIVERY_DELIVERED) \<and>
                            (d_failedAt d \<noteq> None) = (\<not> success r) \<and>
                            d_errorMessage d = errorMessage r \<and>
                            d_retryCount d = 0 \<and> retryCount r = 0) rs (delivery # new')"
    using n4 d rs by simp
  ultimately show ?case by blast
qed

section \<open>Facts about the email and the push provider\<close>

text \<open>
  The check of an email address, read as the regular expression reads: a local part, the
  sign \<^verbatim>\<open>@\<close>, and a domain with a dot inside, all three parts non-empty and free of white
  space and of \<^verbatim>\<open>@\<close>.
\<close>

lemma EmailProvider_validateChannelValue_regex:
  "EmailProvider_validateChannelValue s \<longleftrightarrow>
     (\<exists>a b c. s = a @ ''@'' @ b @ ''.'' @ c \<and> a \<noteq> [] \<and> b \<noteq> [] \<and> c \<noteq> [] \<and>
        (\<forall>x\<in>set (a @ b @ c). \<not> isWhitespace x \<and> x \<noteq> CHR ''@''))"
proof
  assume v: "EmailProvider_validateChannelValue s"
  let ?local = "takeWhile (\<lambda>c. c \<noteq> CHR ''@'') s"
  let ?rest = "dropWhile (\<lambda>c. c \<noteq> CHR ''@'') s"
  from v have l: "?local \<noteq> []" "\<forall>x\<in>set ?local. \<not> isWhitespace x"
    by (auto simp: EmailProvider_validateChannelValue_def Let_def list_all_iff)
  from v obtain at domain where r: "?rest = at # domain"
    and d: "\<forall>x\<in>set domain. \<not> isWhitespace x \<and> x \<noteq> CHR ''@''"
    and dot: "CHR ''.'' \<in> set (butlast (tl domain))"
    by (auto simp: EmailProvider_validateChannelValue_def Let_def list_all_iff split: list.splits)
  have at: "at = CHR ''@''"
    using r hd_dropWhile [of "\<lambda>c. c \<noteq> CHR ''@''" s] by simp
  have la: "\<forall>x\<in>set ?local. x \<noteq> CHR ''@''"
    by (auto dest: set_takeWhileD)
  obtain u w where uw: "butlast (tl domain) = u @ CHR ''.'' # w"
    using dot by (auto dest: split_list)
  define l where "l = last (tl domain)"
  have tlne: "tl domain \<noteq> []" using dot by auto
  have "tl domain = butlast (tl domain) @ [l]" using tlne by (simp add: l_def)
  then have td: "tl domain = u @ CHR ''.'' # w @ [l]" using uw by simp
  obtain x0 where dom: "domain = x0 # u @ CHR ''.'' # w @ [l]"
    using tlne td by (cases domain) auto
  have "s = ?local @ ?rest" by simp
  then have s: "s = ?local @ ''@'' @ (x0 # u) @ ''.'' @ (w @ [l])"
    unfolding r at dom by simp
  have ok: "\<forall>x\<in>set (?local @ (x0 # u) @ (w @ [l])). \<not> isWhitespace x \<and> x \<noteq> CHR ''@''"
    using l la d unfolding dom by auto
  show "\<exists>a b c. s = a @ ''@'' @ b @ ''.'' @ c \<and> a \<noteq> [] \<and> b \<noteq> [] \<and> c \<noteq> [] \<and>
        (\<forall>x\<in>set (a @ b @ c). \<not> isWhitespace x \<and> x \<noteq> CHR ''@'')"
    by (rule exI [of _ ?local], rule exI [of _ "x0 # u"], rule exI [of _ "w @ [l]"])
       (use s l(1) ok in simp)
next
  assume "\<exists>a b c. s = a @ ''@'' @ b @ ''.'' @ c \<and> a \<noteq> [] \<and> b \<noteq> [] \<and> c \<noteq> [] \<and>
        (\<forall>x\<in>set (a @ b @ c). \<not> isWhitespace x \<and> x \<noteq> CHR ''@'')"
  then obtain a b c where s: "s = a @ ''@'' @ b @ ''.'' @ c" and ne: "a \<noteq> []" "b \<noteq> []" "c \<noteq> []"
    and ok: "\<forall>x\<in>set (a @ b @ c). \<not> isWhitespace x \<and> x \<noteq> CHR ''@''"
    by iprover
  have tw: "takeWhile (\<lambda>c. c \<noteq> CHR ''@'') s = a"
    using s ok by (simp add: takeWhile_append2)
  have dw: "dropWhile (\<lambda>c. c \<noteq> CHR ''@'') s = CHR ''@'' # b @ ''.'' @ c"
    using s ok by (simp add: dropWhile_append2)
  have nw: "\<not> isWhitespace (CHR ''.'')" by (simp add: isWhitespace_def)
  have "butlast (tl (b @ ''.'' @ c)) = tl b @ CHR ''.'' # butlast c"
    using ne by (cases b) (simp_all add: butlast_append)
  then have dot: "CHR ''.'' \<in> set (butlast (tl (b @ ''.'' @ c)))" by simp
  show "EmailProvider_validateChannelValue s"
    unfolding EmailProvider_validateChannelValue_def Let_def tw dw
    using ne ok nw dot by (simp add: list_all_iff)
qed

lemma sendViaSendGrid_shape:
  "t_success (fst (sendViaSendGrid env v p w)) \<or> t_errorMessage (fst (sendViaSendGrid env v p w)) \<noteq> None"
proof (cases "config_get env ''SENDGRID_API_KEY'' [] = []")
  case True
  then show ?thesis by (simp add: sendViaSendGrid_def)
next
  case False
  obtain x w' where f: "fetch_sendgrid env (config_get env ''SENDGRID_API_KEY'' []) v p w = (x, w')"
    by (cases "fetch_sendgrid env (config_get env ''SENDGRID_API_KEY'' []) v p w")
  show ?thesis
  proof (cases x)
    case (Inl error)
    then show ?thesis using False f by (simp add: sendViaSendGrid_def)
  next
    case (Inr response)
    then show ?thesis using False f
      by (cases "sg_text response") (simp_all add: sendViaSendGrid_def)
  qed
qed

lemma sendViaAwsSes_shape:
  "t_success (fst (sendViaAwsSes env v p w)) \<or> t_errorMessage (fst (sendViaAwsSes env v p w)) \<noteq> None"
  by (simp add: sendViaAwsSes_def)

lemma sendViaNodemailer_shape:
  "t_success (fst (sendViaNodemailer env v p w)) \<or> t_errorMessage (fst (sendViaNodemailer env v p w)) \<noteq> None"
  by (simp add: sendViaNodemailer_def)

lemma sendViaConsole_shape:
  "t_success (fst (sendViaConsole v p w)) \<or> t_errorMessage (fst (sendViaConsole v p w)) \<noteq> None"
  by (simp add: sendViaConsole_def)

lemma if_chain:
  "P a \<Longrightarrow> P b \<Longrightarrow> P c \<Longrightarrow> P d \<Longrightarrow>
     P (if c1 then a else if c2 then b else if c3 then c else if c4 then d else a)"
  by simp

lemma EmailProvider_send_shape:
  "\<exists>r w'. EmailProvider_send env v p m w = (Inr r, w') \<and>
           outcomeShape (success r) (status r) (errorMessage r)"
proof (cases "EmailProvider_validateChannelValue v")
  case False
  then show ?thesis by (simp add: EmailProvider_send_def outcomeShape_def)
next
  case True
  let ?provider = "toLowerCase (config_get env ''EMAIL_PROVIDER'' ''console'')"
  let ?t = "(if ?provider = ''console'' then sendViaConsole v p w
                else if ?provider = ''sendgrid'' then sendViaSendGrid env v p w
                else if ?provider = ''aws-ses'' then sendViaAwsSes env v p w
                else if ?provider = ''nodemailer'' then sendViaNodemailer env v p w
                else sendViaConsole v p w)"
  have sh: "t_success (fst ?t) \<or> t_errorMessage (fst ?t) \<noteq> None"
    by (rule if_chain [where P = "\<lambda>t. t_success (fst t) \<or> t_errorMessage (fst t) \<noteq> None"])
      (rule sendViaConsole_shape sendViaSendGrid_shape sendViaAwsSes_shape
         sendViaNodemailer_shape)+
  obtain t w' where t: "?t = (t, w')" by (cases ?t)
  have "EmailProvider_send env v p m w =
          (if t_success t
           then (Inr \<lparr>success = True, status = DELIVERY_DELIVERED, errorMessage = None\<rparr>, w')
           else (Inr \<lparr>success = False, status = DELIVERY_FAILED, errorMessage = t_errorMessage t\<rparr>, w'))"
    unfolding EmailProvider_send_def Let_def using True t by (simp only: not_True_eq_False if_False prod.case)
  moreover have "t_success t \<or> t_errorMessage t \<noteq> None" using sh unfolding t by simp
  ultimately show ?thesis by (cases "t_success t") (simp_all add: outcomeShape_def)
qed

lemma FcmProvider_send_shape:
  "\<exists>r w'. FcmProvider_send env v p m w = (Inr r, w') \<and>
           outcomeShape (success r) (status r) (errorMessage r)"
proof (cases "FcmProvider_validateChannelValue v \<and> config_get env ''FCM_SERVER_KEY'' [] \<noteq> []")
  case False
  then show ?thesis
    by (cases "FcmProvider_validateChannelValue v")
       (simp_all add: FcmProvider_send_def outcomeShape_def)
next
  case True
  obtain x w' where
    f: "fetch_fcm env (config_get env ''FCM_SERVER_KEY'' []) v p m w = (x, w')"
    by (cases "fetch_fcm env (config_get env ''FCM_SERVER_KEY'' []) v p m w")
  show ?thesis
  proof (cases x)
    case (Inl error)
    then show ?thesis using True f by (simp add: FcmProvider_send_def outcomeShape_def)
  next
    case (Inr response)
    then show ?thesis using True f
      by (cases "fcm_ok response \<and> fcm_success_is_1 response")
         (simp_all add: FcmProvider_send_def outcomeShape_def)
  qed
qed

lemma factory_result_shape:
  "outcomeShape (success (fst (sendNotification (NotificationProviderFactory env) ty v p m w)))
     (status (fst (sendNotification (NotificationProviderFactory env) ty v p m w)))
     (errorMessage (fst (sendNotification (NotificationProviderFactory env) ty v p m w)))"
proof -
  consider "ty = EMAIL" | "ty = FCM" | "ty \<noteq> EMAIL" "ty \<noteq> FCM" by blast
  then show ?thesis
  proof cases
    case 1
    obtain r w' where "EmailProvider_send env v p m w = (Inr r, w')"
      "outcomeShape (success r) (status r) (errorMessage r)"
      using EmailProvider_send_shape [of env v p m w] by blast
    then show ?thesis using 1
      by (simp add: sendNotification_def NotificationProviderFactory_def getProvider_registered
          EmailProvider_def)
  next
    case 2
    obtain r w' where "FcmProvider_send env v p m w = (Inr r, w')"
      "outcomeShape (success r) (status r) (errorMessage r)"
      using FcmProvider_send_shape [of env v p m w] by blast
    then show ?thesis using 2
      by (simp add: sendNotification_def NotificationProviderFactory_def getProvider_registered
          FcmProvider_def)
  next
    case 3
    then show ?thesis
      by (simp add: sendNotification_def NotificationProviderFactory_def getProvider_registered
          outcomeShape_def)
  qed
qed

section \<open>Facts about the operations\<close>

lemma aggregateStatus_iff:
  "aggregateStatus rs = (if list_ex (\<lambda>result. success result) rs then SENT else FAILED)"
  by (simp add: aggregateStatus_def Let_def)

lemma resolveChannels_None: "resolveChannels xs None = xs"
  by (simp add: resolveChannels_def getDefaultChannels_def filter_id_conv)

lemma resolveChannels_filter:
  "resolveChannels (activeChannelsOf s uid) chs =
     filter (\<lambda>c. c_userId c = uid \<and> c_isActive c \<and>
                 (case chs of None \<Rightarrow> True | Some kinds \<Rightarrow> c_type c \<in> set kinds))
       (notificationChannels s)"
proof (cases chs)
  case None
  then show ?thesis
    by (simp add: resolveChannels_None activeChannelsOf_def)
next
  case (Some kinds)
  then show ?thesis
    by (simp add: resolveChannels_def activeChannelsOf_def conj_commute conj_left_commute)
qed

lemma dispatchRound_Inr:
  assumes "dispatchRound F now senderId dto s w = (Inr (notification, deliveryResults), s2, w2)"
  shows "\<exists>recipient s1.
           user_findUnique s (dto_recipientId dto) = Some recipient \<and>
           notification_create (dto_title dto) (dto_message dto) (dto_type dto) senderId
             (dto_recipientId dto) PENDING s = (Inr notification, s1) \<and>
           sendToChannels F now notification
             (resolveChannels (activeChannelsOf s (u_id recipient)) (dto_channels dto)) s1 w
             = (deliveryResults, s2, w2)"
  using assms
  by (auto simp: dispatchRound_def split: option.splits prod.splits sum.splits)

lemma dispatchRound_Inl:
  "dispatchRound F now senderId dto s w = (Inl e, s2, w2) \<Longrightarrow> s2 = s \<and> w2 = w"
  by (auto simp: dispatchRound_def notification_create_def Let_def
      split: option.splits prod.splits sum.splits)

lemma dispatchRound_total:
  assumes "user_findUnique s (dto_recipientId dto) = Some recipient"
    and "user_findUnique s senderId = Some sender"
  shows "\<exists>n rs s2 w2. dispatchRound F now senderId dto s w = (Inr (n, rs), s2, w2)"
  using assms
  by (auto simp: dispatchRound_def notification_create_def Let_def split: prod.splits)

lemma createNotification_after_round:
  assumes "dispatchRound F now senderId dto s w = (Inr (notification, deliveryResults), s2, w2)"
  shows "\<exists>resp s3. createNotification F now senderId dto s w = (Inr resp, s3, w2)
           \<and> r_id resp = n_id (fst notification)
           \<and> r_status resp = aggregateStatus deliveryResults
           \<and> r_deliveries resp = Some (map toDeliveryDto deliveryResults)
           \<and> map n_status (filter (\<lambda>n. n_id n = r_id resp) (notifications s3)) = [r_status resp]
           \<and> notificationDeliveries s3 = notificationDeliveries s2"
proof -
  obtain recipient s1 where
    r: "user_findUnique s (dto_recipientId dto) = Some recipient" and
    c: "notification_create (dto_title dto) (dto_message dto) (dto_type dto) senderId
             (dto_recipientId dto) PENDING s = (Inr notification, s1)" and
    t: "sendToChannels F now notification
             (resolveChannels (activeChannelsOf s (u_id recipient)) (dto_channels dto)) s1 w
             = (deliveryResults, s2, w2)"
    using dispatchRound_Inr [OF assms] by blast
  obtain n sender where ns: "notification = (n, sender)" by (cases notification)
  have c': "s1 = s\<lparr>notifications := notifications s @ [n]\<rparr>" and
    fresh: "\<forall>x\<in>set (notifications s). n_id x \<noteq> n_id n"
    using notification_create_Inr [OF c [unfolded ns]] by auto
  have fr: "notifications s2 = notifications s @ [n]"
    using sendToChannels_frame [OF t] c' by auto
  have s2: "s2 = s2\<lparr>notifications := notifications s @ [n]\<rparr>" using fr by simp
  let ?st = "aggregateStatus deliveryResults"
  have u: "notification_update (n_id n) ?st s2
             = (Inr (n\<lparr>n_status := ?st\<rparr>), s2\<lparr>notifications := notifications s @ [n\<lparr>n_status := ?st\<rparr>]\<rparr>)"
    using notification_update_fresh [OF fresh refl, of ?st s2] s2 by simp
  have filt: "filter (\<lambda>x. n_id x = n_id n) (notifications s) = []"
    using fresh by (auto simp: filter_empty_conv)
  show ?thesis
    using assms u filt
    by (simp add: createNotification_def ns Let_def)
qed

lemma createNotification_notifications:
  "\<exists>suffix. notifications (fst (snd (createNotification F now senderId dto s w)))
               = notifications s @ suffix \<and>
            list_all (\<lambda>n. n_status n = SENT \<or> n_status n = FAILED) suffix \<and>
            distinct (map n_id suffix) \<and>
            (\<forall>x\<in>set suffix. \<forall>y\<in>set (notifications s). n_id y \<noteq> n_id x)"
proof -
  obtain res s2 w2 where d: "dispatchRound F now senderId dto s w = (res, s2, w2)"
    by (cases "dispatchRound F now senderId dto s w") auto
  show ?thesis
  proof (cases res)
    case (Inl e)
    then have "s2 = s" using d dispatchRound_Inl [of F now senderId dto s w e s2 w2] by simp
    then show ?thesis using d Inl by (simp add: createNotification_def)
  next
    case (Inr x)
    obtain notification rs where x: "x = (notification, rs)" by (cases x)
    obtain n sender where ns: "notification = (n, sender)" by (cases notification)
    have round: "dispatchRound F now senderId dto s w = (Inr ((n, sender), rs), s2, w2)"
      using d Inr x ns by simp
    obtain recipient s1 where
      r: "user_findUnique s (dto_recipientId dto) = Some recipient" and
      c: "notification_create (dto_title dto) (dto_message dto) (dto_type dto) senderId
             (dto_recipientId dto) PENDING s = (Inr (n, sender), s1)" and
      t: "sendToChannels F now (n, sender)
             (resolveChannels (activeChannelsOf s (u_id recipient)) (dto_channels dto)) s1 w
             = (rs, s2, w2)"
      using dispatchRound_Inr [OF round] by blast
    have c': "s1 = s\<lparr>notifications := notifications s @ [n]\<rparr>" and
      fresh: "\<forall>x\<in>set (notifications s). n_id x \<noteq> n_id n"
      using notification_create_Inr [OF c] by auto
    have fr: "notifications s2 = notifications s @ [n]"
      using sendToChannels_frame [OF t] c' by auto
    have s2: "s2 = s2\<lparr>notifications := notifications s @ [n]\<rparr>" using fr by simp
    let ?st = "aggregateStatus rs"
    have u: "notification_update (n_id n) ?st s2
             = (Inr (n\<lparr>n_status := ?st\<rparr>), s2\<lparr>notifications := notifications s @ [n\<lparr>n_status := ?st\<rparr>]\<rparr>)"
      using notification_update_fresh [OF fresh refl, of ?st s2] s2 by simp
    have "notifications (fst (snd (createNotification F now senderId dto s w)))
            = notifications s @ [n\<lparr>n_status := ?st\<rparr>]"
      using round u by (simp add: createNotification_def Let_def)
    moreover have "?st = SENT \<or> ?st = FAILED" by (simp add: aggregateStatus_iff)
    ultimately show ?thesis using fresh by simp
  qed
qed

lemma markAsRead_notifications:
  "notifications (snd (markAsRead userId notificationId s)) = notifications s \<or>
   notifications (snd (markAsRead userId notificationId s)) =
     map (\<lambda>x. if n_id x = notificationId then x\<lparr>n_status := READ\<rparr> else x) (notifications s)"
  by (simp add: markAsRead_def notification_update_def split: option.splits)

lemma createNotificationChannel_notifications:
  "notifications (snd (createNotificationChannel F userId dto s)) = notifications s"
  by (simp add: createNotificationChannel_def notificationChannel_create_def Let_def
      split: option.splits)

lemma updateNotificationChannel_notifications:
  "notifications (snd (updateNotificationChannel userId channelId dto s)) = notifications s"
  by (simp add: updateNotificationChannel_def Let_def split: option.splits)

lemma sendNotification_send:
  "sendNotification F ty v payload md w =
     (case F ty of
        None \<Rightarrow>
          (\<lparr>success = False, status = DELIVERY_FAILED,
            errorMessage = Some (''No provider available for channel type: '' @ channelTypeString ty)\<rparr>, w)
      | Some provider \<Rightarrow>
          (case send provider v payload md w of
             (outcome, w1) \<Rightarrow>
               ((case outcome of
                   Inr result \<Rightarrow> result
                 | Inl error \<Rightarrow>
                     \<lparr>success = False, status = DELIVERY_FAILED,
                      errorMessage = Some (errorMessageOf error)\<rparr>), w1)))"
  by (simp add: sendNotification_def getProvider_def split: option.splits prod.splits sum.splits)

lemma sendToChannels_sendEach:
  assumes "sendToChannels F now n cs s w = (rs, s2, w2)"
  shows "sendEach F
           \<lparr>p_title = n_title (fst n), p_message = n_message (fst n), p_type = n_type (fst n),
            p_senderName = u_name (snd n), p_senderEmail = u_email (snd n)\<rparr> cs w
         = (map (\<lambda>r. \<lparr>success = success r, status = status r, errorMessage = errorMessage r\<rparr>) rs, w2)"
  using assms
proof (induction cs arbitrary: s w rs s2 w2)
  case Nil
  then show ?case by simp
next
  case (Cons c cs)
  let ?payload = "\<lparr>p_title = n_title (fst n), p_message = n_message (fst n), p_type = n_type (fst n),
            p_senderName = u_name (snd n), p_senderEmail = u_email (snd n)\<rparr>"
  obtain result w1 delivery s1 rs' where
    sn: "sendNotification F (c_type c) (c_value c) ?payload (c_metadata c) w = (result, w1)" and
    dc: "notificationDelivery_create (n_id (fst n)) (c_id c) (status result)
             (if success result then Some (now w1) else None)
             (if status result = DELIVERY_DELIVERED then Some (now w1) else None)
             (if \<not> success result then Some (now w1) else None)
             (errorMessage result) s = (delivery, s1)" and
    rec: "sendToChannels F now n cs s1 w1 = (rs', s2, w2)" and
    rs: "rs = \<lparr>success = success result, status = status result,
                  errorMessage = errorMessage result, deliveryId = d_id delivery,
                  channelType = c_type c, channelValue = c_value c,
                  retryCount = d_retryCount delivery\<rparr> # rs'"
    using sendToChannels_Cons [OF Cons.prems] by blast
  note ih = Cons.IH [OF rec]
  show ?case
  proof (cases "F (c_type c)")
    case None
    then have "result = \<lparr>success = False, status = DELIVERY_FAILED,
                 errorMessage = Some (''No provider available for channel type: ''
                                      @ channelTypeString (c_type c))\<rparr>" and "w1 = w"
      using sn by (simp_all add: sendNotification_send)
    then show ?thesis using None ih rs by simp
  next
    case (Some provider)
    obtain outcome w1' where
      sd: "send provider (c_value c) ?payload (c_metadata c) w = (outcome, w1')"
      by (cases "send provider (c_value c) ?payload (c_metadata c) w")
    have r: "result = (case outcome of Inr result \<Rightarrow> result
                 | Inl error \<Rightarrow> \<lparr>success = False, status = DELIVERY_FAILED,
                      errorMessage = Some (errorMessageOf error)\<rparr>)" and w: "w1' = w1"
      using sn Some sd by (simp_all add: sendNotification_send)
    show ?thesis
      using Some sd ih rs unfolding w r by simp
  qed
qed

lemma notification_create_fields:
  assumes "notification_create t m ty sid rid st s = (Inr (n, sender), s1)"
  shows "n_title n = t \<and> n_message n = m \<and> n_type n = ty \<and> n_senderId n = sid \<and>
         n_recipientId n = rid \<and> user_findUnique s sid = Some sender"
  using assms by (auto simp: notification_create_def Let_def split: option.splits)

lemma map_three:
  "length xs = 3 \<Longrightarrow> map f xs = [f (xs ! 0), f (xs ! 1), f (xs ! 2)]"
  by (auto simp: length_Suc_conv numeral_3_eq_3)

section \<open>Facts about the requests in flight\<close>

text \<open>
  A request that is called and resumed with nothing in between does what the operation does
  in one piece; what one call or resumption does to the notifications and to the requests in
  flight; and what every run keeps true.
\<close>

lemma run_Nil: "run F now [] sys = sys"
  by (simp add: run_def)

lemma run_Cons: "run F now (a # acts) sys = run F now acts (step F now a sys)"
  by (simp add: run_def)

lemma run_append: "run F now (xs @ ys) sys = run F now ys (run F now xs sys)"
  by (simp add: run_def)

lemma run_Resume_ended:
  "run F now (replicate m (Resume (length reqs))) (s, w, reqs) = (s, w, reqs)"
  by (induction m) (simp_all add: run_Nil run_Cons)

lemma step_Resume_last:
  "step F now (Resume (length reqs)) (s, w, reqs @ [r]) =
     (case resume F now r s w of
        (None, s1, w1) \<Rightarrow> (s1, w1, reqs)
      | (Some r', s1, w1) \<Rightarrow> (s1, w1, reqs @ [r']))"
  by (simp split: prod.splits option.splits)

lemma sendToChannels_resumes:
  assumes "sendToChannels F now n cs s w = (rs', s2, w2)"
  shows "run F now (replicate (2 * length cs) (Resume (length reqs))) (s, w, reqs @ [Sending n cs rs])
           = (s2, w2, reqs @ [Sending n [] (rs @ rs')])"
  using assms
proof (induction cs arbitrary: s w rs rs' s2 w2)
  case Nil
  then show ?case by (simp add: run_Nil)
next
  case (Cons c cs)
  let ?payload = "\<lparr>p_title = n_title (fst n), p_message = n_message (fst n), p_type = n_type (fst n),
            p_senderName = u_name (snd n), p_senderEmail = u_email (snd n)\<rparr>"
  obtain result w1 delivery s1 rs1 where
    sn: "sendNotification F (c_type c) (c_value c) ?payload (c_metadata c) w = (result, w1)" and
    dc: "notificationDelivery_create (n_id (fst n)) (c_id c) (status result)
             (if success result then Some (now w1) else None)
             (if status result = DELIVERY_DELIVERED then Some (now w1) else None)
             (if \<not> success result then Some (now w1) else None)
             (errorMessage result) s = (delivery, s1)" and
    rec: "sendToChannels F now n cs s1 w1 = (rs1, s2, w2)" and
    rs: "rs' = \<lparr>success = success result, status = status result,
                  errorMessage = errorMessage result, deliveryId = d_id delivery,
                  channelType = c_type c, channelValue = c_value c,
                  retryCount = d_retryCount delivery\<rparr> # rs1"
    using sendToChannels_Cons [OF Cons.prems] by blast
  let ?entry = "\<lparr>success = success result, status = status result,
                  errorMessage = errorMessage result, deliveryId = d_id delivery,
                  channelType = c_type c, channelValue = c_value c,
                  retryCount = d_retryCount delivery\<rparr>"
  have one: "step F now (Resume (length reqs)) (s, w, reqs @ [Sending n (c # cs) rs])
               = (s, w1, reqs @ [Sent n c result (now w1) cs rs])"
    by (simp only: step_Resume_last resume.simps sn prod.case option.case)
  have two: "step F now (Resume (length reqs)) (s, w1, reqs @ [Sent n c result (now w1) cs rs])
               = (s1, w1, reqs @ [Sending n cs (rs @ [?entry])])"
    by (simp only: step_Resume_last resume.simps dc prod.case option.case)
  have rep: "replicate (2 * length (c # cs)) (Resume (length reqs))
               = Resume (length reqs) # Resume (length reqs)
                 # replicate (2 * length cs) (Resume (length reqs))"
    by simp
  show ?case
    unfolding rep run_Cons one two
    using Cons.IH [OF rec, of "rs @ [?entry]"] rs by simp
qed

lemma length_resolveChannels_le:
  "length (resolveChannels (activeChannelsOf s i) chs) \<le> length (notificationChannels s)"
  by (simp add: resolveChannels_def activeChannelsOf_def Let_def le_trans [OF length_filter_le length_filter_le])

lemma run_createNotification:
  assumes "2 * length (notificationChannels s) + 2 \<le> m"
  shows "run F now (CallCreateNotification senderId dto # replicate m (Resume (length reqs)))
             (s, w, reqs)
           = (fst (snd (createNotification F now senderId dto s w)),
              snd (snd (createNotification F now senderId dto s w)), reqs)"
proof (cases "user_findUnique s (dto_recipientId dto)")
  case None
  then show ?thesis
    by (simp add: run_Cons run_Resume_ended createNotification_def dispatchRound_def)
next
  case (Some recipient)
  let ?k = "Resume (length reqs)"
  let ?cs = "resolveChannels (activeChannelsOf s (u_id recipient)) (dto_channels dto)"
  have call: "step F now (CallCreateNotification senderId dto) (s, w, reqs)
                = (s, w, reqs @ [Found senderId dto (activeChannelsOf s (u_id recipient))])"
    using Some by simp
  obtain m' where m: "m = Suc m'" using assms by (cases m) auto
  obtain res s1 where nc: "notification_create (dto_title dto) (dto_message dto) (dto_type dto)
      senderId (dto_recipientId dto) PENDING s = (res, s1)"
    by (cases "notification_create (dto_title dto) (dto_message dto) (dto_type dto)
      senderId (dto_recipientId dto) PENDING s")
  show ?thesis
  proof (cases res)
    case (Inl e)
    have refused: "step F now ?k (s, w, reqs @ [Found senderId dto (activeChannelsOf s (u_id recipient))])
            = (s1, w, reqs)"
      using nc Inl by (simp only: step_Resume_last resume.simps prod.case sum.case option.case)
    have rep: "replicate m ?k = ?k # replicate m' ?k"
      unfolding m by simp
    have lhs: "run F now (CallCreateNotification senderId dto # replicate m ?k) (s, w, reqs)
                 = (s1, w, reqs)"
      unfolding rep run_Cons call refused run_Resume_ended ..
    have rhs: "snd (createNotification F now senderId dto s w) = (s1, w)"
      using Some nc Inl by (simp add: createNotification_def dispatchRound_def)
    show ?thesis unfolding lhs using rhs by simp
  next
    case (Inr notification)
    obtain rs s2 w2 where st: "sendToChannels F now notification ?cs s1 w = (rs, s2, w2)"
      by (cases "sendToChannels F now notification ?cs s1 w") auto
    obtain r s3 where nu: "notification_update (n_id (fst notification)) (aggregateStatus rs) s2
        = (r, s3)"
      by (cases "notification_update (n_id (fst notification)) (aggregateStatus rs) s2")
    have created: "step F now ?k (s, w, reqs @ [Found senderId dto (activeChannelsOf s (u_id recipient))])
            = (s1, w, reqs @ [Sending notification ?cs []])"
      using nc Inr by (simp only: step_Resume_last resume.simps prod.case sum.case option.case)
    have sent: "run F now (replicate (2 * length ?cs) ?k) (s1, w, reqs @ [Sending notification ?cs []])
            = (s2, w2, reqs @ [Sending notification [] rs])"
      using sendToChannels_resumes [OF st, of reqs "[]"] by simp
    have written: "step F now ?k (s2, w2, reqs @ [Sending notification [] rs]) = (s3, w2, reqs)"
      using nu by (simp only: step_Resume_last resume.simps prod.case option.case)
    have len: "2 * length ?cs + 2 \<le> m"
      using assms length_resolveChannels_le [of s "u_id recipient" "dto_channels dto"] by linarith
    then obtain j where j: "m = Suc (2 * length ?cs + (Suc j))"
      by (metis add_2_eq_Suc' add_Suc_right le_Suc_ex add_Suc)
    have rep: "replicate m ?k = ?k # (replicate (2 * length ?cs) ?k @ (?k # replicate j ?k))"
      unfolding j by (simp add: replicate_add replicate_append_same)
    have lhs: "run F now (CallCreateNotification senderId dto # replicate m ?k) (s, w, reqs)
                 = (s3, w2, reqs)"
      unfolding rep run_Cons run_append call created sent written run_Resume_ended ..
    have rhs: "snd (createNotification F now senderId dto s w) = (s3, w2)"
      using Some nc Inr st nu
      by (cases r) (simp_all add: createNotification_def dispatchRound_def Let_def split: prod.splits)
    show ?thesis unfolding lhs using rhs by simp
  qed
qed

lemma run_markAsRead:
  "run F now [CallMarkAsRead userId notificationId, Resume (length reqs)] (s, w, reqs)
     = (snd (markAsRead userId notificationId s), w, reqs)"
proof (cases "find (\<lambda>n. n_id n = notificationId \<and> n_recipientId n = userId) (notifications s)")
  case None
  then show ?thesis by (simp add: run_Cons run_Nil markAsRead_def)
next
  case (Some n)
  obtain r s1 where nu: "notification_update notificationId READ s = (r, s1)"
    by (cases "notification_update notificationId READ s")
  have "step F now (CallMarkAsRead userId notificationId) (s, w, reqs)
          = (s, w, reqs @ [Reading userId notificationId])"
    using Some by simp
  moreover have "step F now (Resume (length reqs)) (s, w, reqs @ [Reading userId notificationId])
          = (s1, w, reqs)"
    using nu by (simp only: step_Resume_last resume.simps prod.case option.case)
  moreover have "snd (markAsRead userId notificationId s) = s1"
    using Some nu by (cases r) (simp_all add: markAsRead_def)
  ultimately show ?thesis by (simp add: run_Cons run_Nil del: step.simps)
qed

lemma notification_update_notifications:
  "notifications (snd (notification_update i st s))
     = map (\<lambda>x. if n_id x = i then x\<lparr>n_status := st\<rparr> else x) (notifications s)"
proof (cases "find (\<lambda>n. n_id n = i) (notifications s)")
  case None
  then have "\<forall>x\<in>set (notifications s). n_id x \<noteq> i"
    by (simp add: find_None_iff)
  then have "map (\<lambda>x. if n_id x = i then x\<lparr>n_status := st\<rparr> else x) (notifications s)
               = notifications s"
    by (intro map_idI) simp
  then show ?thesis using None by (simp add: notification_update_def)
next
  case (Some n)
  then show ?thesis by (simp add: notification_update_def)
qed

lemma resume_Found:
  assumes "resume F now (Found senderId dto cs) s w = (r', s1, w1)"
  shows "(r' = None \<and> notifications s1 = notifications s) \<or>
         (\<exists>n sender. r' = Some (Sending (n, sender) (resolveChannels cs (dto_channels dto)) []) \<and>
            notifications s1 = notifications s @ [n] \<and> n_status n = PENDING \<and>
            (\<forall>x\<in>set (notifications s). n_id x \<noteq> n_id n))"
proof -
  obtain res s1' where nc: "notification_create (dto_title dto) (dto_message dto) (dto_type dto)
      senderId (dto_recipientId dto) PENDING s = (res, s1')"
    by (cases "notification_create (dto_title dto) (dto_message dto) (dto_type dto)
      senderId (dto_recipientId dto) PENDING s")
  show ?thesis
  proof (cases res)
    case (Inl e)
    then have "s1' = s" using nc
      by (auto simp: notification_create_def Let_def split: option.splits)
    then show ?thesis using assms nc Inl by simp
  next
    case (Inr notification)
    obtain n sender where ns: "notification = (n, sender)" by (cases notification)
    have "s1' = s\<lparr>notifications := notifications s @ [n]\<rparr>"
      "\<forall>x\<in>set (notifications s). n_id x \<noteq> n_id n" "n_status n = PENDING"
      using notification_create_Inr [OF nc [unfolded Inr ns]] by auto
    then show ?thesis using assms nc Inr ns by auto
  qed
qed

lemma resume_written:
  assumes "resume F now (Sending n [] rs) s w = (r', s1, w1)"
  shows "r' = None \<and>
         notifications s1 = map (\<lambda>x. if n_id x = n_id (fst n)
                                      then x\<lparr>n_status := aggregateStatus rs\<rparr> else x) (notifications s)"
  using assms notification_update_notifications [of "n_id (fst n)" "aggregateStatus rs" s]
  by (auto split: prod.splits)

lemma resume_send:
  assumes "resume F now (Sending n (c # cs) rs) s w = (r', s1, w1)"
  shows "s1 = s \<and> (\<exists>result stamp. r' = Some (Sent n c result stamp cs rs))"
  using assms by (auto split: prod.splits)

lemma resume_Sent:
  assumes "resume F now (Sent n c result stamp cs rs) s w = (r', s1, w1)"
  shows "notifications s1 = notifications s \<and> (\<exists>entry. r' = Some (Sending n cs (rs @ [entry])))"
  using assms by (auto simp: notificationDelivery_create_def Let_def split: prod.splits)

lemma resume_Reading:
  assumes "resume F now (Reading userId notificationId) s w = (r', s1, w1)"
  shows "r' = None \<and>
         notifications s1 = map (\<lambda>x. if n_id x = notificationId then x\<lparr>n_status := READ\<rparr> else x)
                              (notifications s)"
  using assms notification_update_notifications [of notificationId READ s]
  by (auto split: prod.splits)


lemma step_Resume:
  assumes "step F now (Resume k) (s, w, reqs) = (s', w', reqs')"
  shows "(\<not> k < length reqs \<and> s' = s \<and> w' = w \<and> reqs' = reqs) \<or>
         (k < length reqs \<and>
          (\<exists>r'. resume F now (reqs ! k) s w = (r', s', w') \<and>
                reqs' = (case r' of None \<Rightarrow> take k reqs @ drop (Suc k) reqs
                         | Some request \<Rightarrow> reqs[k := request])))"
proof (cases "k < length reqs")
  case False
  then show ?thesis using assms by simp
next
  case True
  obtain r' s1 w1 where r: "resume F now (reqs ! k) s w = (r', s1, w1)"
    by (cases "resume F now (reqs ! k) s w") auto
  show ?thesis using assms True r by (cases r') auto
qed

lemma step_notifications:
  assumes "step F now a (s, w, reqs) = (s', w', reqs')"
  shows "notifications s' = notifications s \<or>
         (\<exists>k senderId dto cs n. a = Resume k \<and> k < length reqs \<and> reqs ! k = Found senderId dto cs \<and>
            notifications s' = notifications s @ [n] \<and> n_status n = PENDING \<and>
            (\<forall>x\<in>set (notifications s). n_id x \<noteq> n_id n)) \<or>
         (\<exists>k n rs. a = Resume k \<and> k < length reqs \<and> reqs ! k = Sending n [] rs \<and>
            notifications s' = map (\<lambda>x. if n_id x = n_id (fst n)
                                         then x\<lparr>n_status := aggregateStatus rs\<rparr> else x)
                                 (notifications s)) \<or>
         (\<exists>k userId notificationId. a = Resume k \<and> k < length reqs \<and>
            reqs ! k = Reading userId notificationId \<and>
            notifications s' = map (\<lambda>x. if n_id x = notificationId then x\<lparr>n_status := READ\<rparr> else x)
                                 (notifications s))"
proof (cases a)
  case (CallCreateNotification senderId dto)
  then show ?thesis using assms by (auto split: option.splits)
next
  case (CallMarkAsRead userId notificationId)
  then show ?thesis using assms by (auto split: option.splits)
next
  case (CallCreateNotificationChannel userId dto)
  then show ?thesis
    using assms createNotificationChannel_notifications [of F userId dto s] by auto
next
  case (CallUpdateNotificationChannel userId channelId dto)
  then show ?thesis
    using assms updateNotificationChannel_notifications [of userId channelId dto s] by auto
next
  case (Resume k)
  note st = step_Resume [OF assms [unfolded Resume]]
  show ?thesis
  proof (cases "k < length reqs")
    case False
    then show ?thesis using st by auto
  next
    case True
    then obtain r' where r: "resume F now (reqs ! k) s w = (r', s', w')"
      using st by auto
    show ?thesis
    proof (cases "reqs ! k")
      case (Found senderId dto cs)
      then show ?thesis using resume_Found [OF r [unfolded Found]] Resume True by blast
    next
      case (Sending n cs rs)
      show ?thesis
      proof (cases cs)
        case Nil
        then show ?thesis using resume_written [OF r [unfolded Sending Nil]] Resume True Sending by blast
      next
        case (Cons c cs')
        then show ?thesis using resume_send [OF r [unfolded Sending Cons]] by blast
      qed
    next
      case (Sent n c result stamp cs rs)
      then show ?thesis using resume_Sent [OF r [unfolded Sent]] by blast
    next
      case (Reading userId notificationId)
      then show ?thesis using resume_Reading [OF r [unfolded Reading]] Resume True by blast
    qed
  qed
qed

lemma set_removed_subset: "set (take k xs @ drop (Suc k) xs) \<subseteq> set xs"
  by (auto dest: in_set_takeD in_set_dropD)

lemma step_requests:
  assumes "step F now a (s, w, reqs) = (s', w', reqs')" and "r \<in> set reqs'"
  shows "r \<in> set reqs \<or>
         (\<exists>userId notificationId. r = Reading userId notificationId \<and>
            a = CallMarkAsRead userId notificationId \<and>
            list_ex (\<lambda>n. n_id n = notificationId \<and> n_recipientId n = userId) (notifications s)) \<or>
         (\<exists>senderId dto cs. r = Found senderId dto cs) \<or>
         (\<exists>n cs rs. r = Sending n cs rs \<and> list_ex (dispatches (n_id (fst n))) reqs) \<or>
         (\<exists>n c result stamp cs rs. r = Sent n c result stamp cs rs \<and>
            list_ex (dispatches (n_id (fst n))) reqs) \<or>
         (\<exists>n cs rs. r = Sending n cs rs \<and> (\<forall>x\<in>set (notifications s). n_id x \<noteq> n_id (fst n)))"
proof (cases a)
  case (CallCreateNotification senderId dto)
  then show ?thesis using assms by (auto split: option.splits)
next
  case (CallMarkAsRead userId notificationId)
  show ?thesis
  proof (cases "find (\<lambda>n. n_id n = notificationId \<and> n_recipientId n = userId) (notifications s)")
    case None
    then show ?thesis using assms CallMarkAsRead by auto
  next
    case (Some n)
    then have "list_ex (\<lambda>n. n_id n = notificationId \<and> n_recipientId n = userId) (notifications s)"
      using find_Some_set [OF Some] by (auto simp: list_ex_iff)
    then show ?thesis using assms CallMarkAsRead Some by auto
  qed
next
  case (CallCreateNotificationChannel userId dto)
  then show ?thesis using assms by auto
next
  case (CallUpdateNotificationChannel userId channelId dto)
  then show ?thesis using assms by auto
next
  case (Resume k)
  note st = step_Resume [OF assms(1) [unfolded Resume]]
  show ?thesis
  proof (cases "k < length reqs")
    case False
    then show ?thesis using st assms(2) by auto
  next
    case True
    then obtain r' where r: "resume F now (reqs ! k) s w = (r', s', w')" and
      reqs': "reqs' = (case r' of None \<Rightarrow> take k reqs @ drop (Suc k) reqs
                         | Some request \<Rightarrow> reqs[k := request])"
      using st by auto
    have mem: "reqs ! k \<in> set reqs" using True by simp
    show ?thesis
    proof (cases r')
      case None
      then show ?thesis using reqs' assms(2) set_removed_subset [of k reqs] by auto
    next
      case (Some request)
      then have "r \<in> set reqs \<or> r = request"
        using reqs' assms(2) set_update_subset_insert [of reqs k request] by auto
      moreover have "request = r \<Longrightarrow> ?thesis"
      proof -
        assume eq: "request = r"
        show ?thesis
        proof (cases "reqs ! k")
          case (Found senderId dto cs)
          then show ?thesis using resume_Found [OF r [unfolded Found]] Some eq by fastforce
        next
          case (Sending n cs rs)
          show ?thesis
          proof (cases cs)
            case Nil
            then show ?thesis using resume_written [OF r [unfolded Sending Nil]] Some by blast
          next
            case (Cons c cs')
            have "list_ex (dispatches (n_id (fst n))) reqs"
              using mem Sending by (auto simp: list_ex_iff intro!: bexI [of _ "reqs ! k"])
            then show ?thesis using resume_send [OF r [unfolded Sending Cons]] Some eq by blast
          qed
        next
          case (Sent n c result stamp cs rs)
          have "list_ex (dispatches (n_id (fst n))) reqs"
            using mem Sent by (auto simp: list_ex_iff intro!: bexI [of _ "reqs ! k"])
          then show ?thesis using resume_Sent [OF r [unfolded Sent]] Some eq by blast
        next
          case (Reading userId notificationId)
          then show ?thesis using resume_Reading [OF r [unfolded Reading]] Some by blast
        qed
      qed
      ultimately show ?thesis by auto
    qed
  qed
qed

lemma step_rows_kept:
  assumes "step F now a (s, w, reqs) = (s', w', reqs')"
  shows "length (notifications s) \<le> length (notifications s') \<and>
         (\<forall>i<length (notifications s).
            n_id (notifications s' ! i) = n_id (notifications s ! i) \<and>
            n_recipientId (notifications s' ! i) = n_recipientId (notifications s ! i))"
  using step_notifications [OF assms]
  by (elim disjE exE conjE) (simp_all add: nth_append)

lemma step_keeps_ids_distinct:
  assumes "step F now a (s, w, reqs) = (s', w', reqs')" and "distinct (map n_id (notifications s))"
  shows "distinct (map n_id (notifications s'))"
proof -
  have same: "map n_id (map (\<lambda>x. if n_id x = i then x\<lparr>n_status := st\<rparr> else x) xs) = map n_id xs"
    for i st and xs :: "Notification list"
    by (induction xs) auto
  show ?thesis
    using step_notifications [OF assms(1)] assms(2)
    by (elim disjE exE conjE) (auto simp: same simp del: map_map)
qed

lemma owned_kept:
  assumes "step F now a (s, w, reqs) = (s', w', reqs')"
    and "list_ex (\<lambda>n. n_id n = i \<and> n_recipientId n = u) (notifications s)"
  shows "list_ex (\<lambda>n. n_id n = i \<and> n_recipientId n = u) (notifications s')"
proof -
  obtain j where j: "j < length (notifications s)" "n_id (notifications s ! j) = i"
    "n_recipientId (notifications s ! j) = u"
    using assms(2) by (auto simp: list_ex_iff in_set_conv_nth)
  have "j < length (notifications s')" "n_id (notifications s' ! j) = i"
    "n_recipientId (notifications s' ! j) = u"
    using step_rows_kept [OF assms(1)] j by auto
  then have p: "n_id (notifications s' ! j) = i \<and> n_recipientId (notifications s' ! j) = u"
    and m: "notifications s' ! j \<in> set (notifications s')"
    by simp_all
  from p m show ?thesis
    unfolding list_ex_iff by (rule bexI)
qed

lemma step_consistent:
  assumes "step F now a (s, w, reqs) = (s', w', reqs')" and "consistent s reqs"
  shows "consistent s' reqs'"
proof -
  have d: "distinct (map n_id (notifications s'))"
    using step_keeps_ids_distinct [OF assms(1)] assms(2) by (simp add: consistent_def)
  have "awaitsOwnedRow s' r" if r: "r \<in> set reqs'" for r
  proof (cases r)
    case (Reading u i)
    have "r \<in> set reqs \<or>
          (a = CallMarkAsRead u i \<and>
           list_ex (\<lambda>n. n_id n = i \<and> n_recipientId n = u) (notifications s))"
      using step_requests [OF assms(1) r] Reading by auto
    then have "list_ex (\<lambda>n. n_id n = i \<and> n_recipientId n = u) (notifications s)"
      using assms(2) Reading by (auto simp: consistent_def list_all_iff)
    then show ?thesis using owned_kept [OF assms(1)] Reading by simp
  qed simp_all
  then show ?thesis using d by (simp add: consistent_def list_all_iff)
qed

lemma step_status:
  assumes "step F now a (s, w, reqs) = (s', w', reqs')" and "consistent s reqs"
    and "i < length (notifications s)"
  shows "n_status (notifications s' ! i) = n_status (notifications s ! i) \<or>
         (n_status (notifications s' ! i) = READ \<and>
          (\<exists>k. a = Resume k \<and> k < length reqs \<and>
               reqs ! k = Reading (n_recipientId (notifications s ! i)) (n_id (notifications s ! i)))) \<or>
         ((n_status (notifications s' ! i) = SENT \<or> n_status (notifications s' ! i) = FAILED) \<and>
          (\<exists>k n rs. a = Resume k \<and> k < length reqs \<and> reqs ! k = Sending n [] rs \<and>
                    n_id (fst n) = n_id (notifications s ! i)))"
proof -
  let ?x = "notifications s ! i"
  consider
    (same) "notifications s' = notifications s" |
    (created) n where "notifications s' = notifications s @ [n]" |
    (written) k n rs where "a = Resume k" "k < length reqs" "reqs ! k = Sending n [] rs"
      "notifications s' = map (\<lambda>x. if n_id x = n_id (fst n)
                                         then x\<lparr>n_status := aggregateStatus rs\<rparr> else x)
                                 (notifications s)" |
    (read) k u j where "a = Resume k" "k < length reqs" "reqs ! k = Reading u j"
      "notifications s' = map (\<lambda>x. if n_id x = j then x\<lparr>n_status := READ\<rparr> else x)
                                 (notifications s)"
    using step_notifications [OF assms(1)] by blast
  then show ?thesis
  proof cases
    case same
    then show ?thesis by simp
  next
    case created
    then show ?thesis using assms(3) by (simp add: nth_append)
  next
    case written
    have ag: "aggregateStatus rs = SENT \<or> aggregateStatus rs = FAILED"
      by (simp add: aggregateStatus_iff)
    show ?thesis
    proof (cases "n_id ?x = n_id (fst n)")
      case False
      then show ?thesis using written(4) assms(3) by simp
    next
      case True
      have st: "n_status (notifications s' ! i) = aggregateStatus rs"
        using written(4) assms(3) True by simp
      have "\<exists>k n rs. a = Resume k \<and> k < length reqs \<and> reqs ! k = Sending n [] rs \<and>
                     n_id (fst n) = n_id ?x"
        using written(1,2,3) True
        by (intro exI [of _ k] exI [of _ n] exI [of _ rs]) simp
      then show ?thesis using st ag by simp
    qed
  next
    case read
    show ?thesis
    proof (cases "n_id ?x = j")
      case False
      then show ?thesis using read assms(3) by simp
    next
      case True
      have "reqs ! k \<in> set reqs" using read(2) by simp
      then have "list_ex (\<lambda>n. n_id n = j \<and> n_recipientId n = u) (notifications s)"
        using assms(2) read(3) by (auto simp: consistent_def list_all_iff)
      then obtain y where y: "y \<in> set (notifications s)" "n_id y = j" "n_recipientId y = u"
        by (auto simp: list_ex_iff)
      have "distinct (map n_id (notifications s))" using assms(2) by (simp add: consistent_def)
      then have "y = ?x"
        using distinct_map_eq [of n_id "notifications s" y ?x] y True assms(3) by simp
      then have "reqs ! k = Reading (n_recipientId ?x) (n_id ?x)"
        using read(3) y True by simp
      then show ?thesis using read True assms(3) by auto
    qed
  qed
qed

lemma step_new_rows:
  assumes "step F now a (s, w, reqs) = (s', w', reqs')"
    and "length (notifications s) \<le> i" and "i < length (notifications s')"
  shows "n_status (notifications s' ! i) = PENDING \<and>
         (\<exists>k senderId dto cs. a = Resume k \<and> k < length reqs \<and> reqs ! k = Found senderId dto cs)"
  using step_notifications [OF assms(1)] assms(2,3)
  by (elim disjE exE conjE) (auto simp: nth_append)

lemma step_not_dispatched:
  assumes "step F now a (s, w, reqs) = (s', w', reqs')"
    and "i < length (notifications s)"
    and "\<not> list_ex (dispatches (n_id (notifications s ! i))) reqs"
  shows "\<not> list_ex (dispatches (n_id (notifications s' ! i))) reqs' \<and>
         (n_status (notifications s' ! i) = n_status (notifications s ! i) \<or>
          n_status (notifications s' ! i) = READ)"
proof -
  let ?x = "notifications s ! i"
  have id: "n_id (notifications s' ! i) = n_id ?x"
    using step_rows_kept [OF assms(1)] assms(2) by simp
  have mem: "?x \<in> set (notifications s)" using assms(2) by simp
  have "\<not> dispatches (n_id ?x) r" if r: "r \<in> set reqs'" for r
  proof
    assume dr: "dispatches (n_id ?x) r"
    from step_requests [OF assms(1) r] dr assms(3) mem show False
      by (elim disjE exE conjE) (auto simp: list_ex_iff)
  qed
  then have nd: "\<not> list_ex (dispatches (n_id (notifications s' ! i))) reqs'"
    unfolding id by (auto simp: list_ex_iff)
  consider
    (same) "notifications s' = notifications s" |
    (created) n where "notifications s' = notifications s @ [n]" |
    (written) k n rs where "a = Resume k" "k < length reqs" "reqs ! k = Sending n [] rs"
      "notifications s' = map (\<lambda>x. if n_id x = n_id (fst n)
                                         then x\<lparr>n_status := aggregateStatus rs\<rparr> else x)
                                 (notifications s)" |
    (read) k u j where "a = Resume k" "k < length reqs" "reqs ! k = Reading u j"
      "notifications s' = map (\<lambda>x. if n_id x = j then x\<lparr>n_status := READ\<rparr> else x)
                                 (notifications s)"
    using step_notifications [OF assms(1)] by blast
  then have "n_status (notifications s' ! i) = n_status ?x \<or> n_status (notifications s' ! i) = READ"
  proof cases
    case same
    then show ?thesis by simp
  next
    case created
    then show ?thesis using assms(2) by (simp add: nth_append)
  next
    case written
    have "reqs ! k \<in> set reqs" using written(2) by simp
    then have "n_id (fst n) \<noteq> n_id ?x"
      using assms(3) written(3) by (auto simp: list_ex_iff)
    then show ?thesis using written assms(2) by simp
  next
    case read
    then show ?thesis using assms(2) by simp
  qed
  then show ?thesis using nd by simp
qed

lemma run_not_dispatched:
  assumes "run F now acts (s, w, reqs) = (s', w', reqs')"
    and "i < length (notifications s)"
    and "\<not> list_ex (dispatches (n_id (notifications s ! i))) reqs"
  shows "i < length (notifications s') \<and>
         n_id (notifications s' ! i) = n_id (notifications s ! i) \<and>
         \<not> list_ex (dispatches (n_id (notifications s' ! i))) reqs' \<and>
         (n_status (notifications s' ! i) = n_status (notifications s ! i) \<or>
          n_status (notifications s' ! i) = READ)"
  using assms
proof (induction acts arbitrary: s w reqs)
  case Nil
  then show ?case by (simp add: run_Nil)
next
  case (Cons a acts)
  obtain s1 w1 reqs1 where st: "step F now a (s, w, reqs) = (s1, w1, reqs1)"
    by (cases "step F now a (s, w, reqs)") auto
  have rest: "run F now acts (s1, w1, reqs1) = (s', w', reqs')"
    using Cons.prems(1) st by (simp add: run_Cons)
  have k: "i < length (notifications s1)" "n_id (notifications s1 ! i) = n_id (notifications s ! i)"
    using step_rows_kept [OF st] Cons.prems(2) by auto
  have nd: "\<not> list_ex (dispatches (n_id (notifications s1 ! i))) reqs1"
    "n_status (notifications s1 ! i) = n_status (notifications s ! i) \<or>
     n_status (notifications s1 ! i) = READ"
    using step_not_dispatched [OF st Cons.prems(2,3)] by auto
  from Cons.IH [OF rest k(1) nd(1)] k(2) nd(2) show ?case by auto
qed

lemma run_consistent:
  assumes "run F now acts (s, w, reqs) = (s', w', reqs')" and "consistent s reqs"
  shows "consistent s' reqs'"
  using assms
proof (induction acts arbitrary: s w reqs)
  case Nil
  then show ?case by (simp add: run_Nil)
next
  case (Cons a acts)
  obtain s1 w1 reqs1 where st: "step F now a (s, w, reqs) = (s1, w1, reqs1)"
    by (cases "step F now a (s, w, reqs)") auto
  have "run F now acts (s1, w1, reqs1) = (s', w', reqs')"
    using Cons.prems(1) st by (simp add: run_Cons)
  then show ?case using Cons.IH step_consistent [OF st Cons.prems(2)] by blast
qed

section \<open>The claims\<close>

text \<open>
  Claim C1. When the round of \<^verbatim>\<open>createNotification\<close> has run, the request succeeds, and the
  status it returns and the status it writes on the new notification are the same: SENT
  when at least one delivery result of the round is a success, however many others failed,
  and FAILED when none is; with no target there is no result and the status is FAILED.
\<close>

theorem createNotification_aggregate_status:
  assumes "dispatchRound F now senderId dto s w = (Inr (notification, deliveryResults), s2, w2)"
  shows "\<exists>resp s3. createNotification F now senderId dto s w = (Inr resp, s3, w2)
           \<and> r_id resp = n_id (fst notification)
           \<and> r_status resp = (if list_ex (\<lambda>result. success result) deliveryResults then SENT else FAILED)
           \<and> map n_status (filter (\<lambda>n. n_id n = r_id resp) (notifications s3)) = [r_status resp]
           \<and> (resolveChannels (activeChannelsOf s (dto_recipientId dto)) (dto_channels dto) = []
                \<longrightarrow> deliveryResults = [] \<and> r_status resp = FAILED)"
proof -
  obtain recipient s1 where
    r: "user_findUnique s (dto_recipientId dto) = Some recipient" and
    c: "notification_create (dto_title dto) (dto_message dto) (dto_type dto) senderId
             (dto_recipientId dto) PENDING s = (Inr notification, s1)" and
    t: "sendToChannels F now notification
             (resolveChannels (activeChannelsOf s (u_id recipient)) (dto_channels dto)) s1 w
             = (deliveryResults, s2, w2)"
    using dispatchRound_Inr [OF assms] by blast
  have len: "length deliveryResults
      = length (resolveChannels (activeChannelsOf s (dto_recipientId dto)) (dto_channels dto))"
    using sendToChannels_length [OF t] user_findUnique_id [OF r] by simp
  have emp: "resolveChannels (activeChannelsOf s (dto_recipientId dto)) (dto_channels dto) = []
               \<longrightarrow> deliveryResults = []"
    using len by auto
  obtain resp s3 where
    cn: "createNotification F now senderId dto s w = (Inr resp, s3, w2)" and
    rid: "r_id resp = n_id (fst notification)" and
    st: "r_status resp = aggregateStatus deliveryResults" and
    dels: "r_deliveries resp = Some (map toDeliveryDto deliveryResults)" and
    stored: "map n_status (filter (\<lambda>n. n_id n = r_id resp) (notifications s3)) = [r_status resp]" and
    rows: "notificationDeliveries s3 = notificationDeliveries s2"
    using createNotification_after_round [OF assms] by auto
  show ?thesis
    using cn rid st stored emp by (auto simp: aggregateStatus_iff)
qed

text \<open>
  The request of the teacher to the student on the small store: the two email sends
  succeed, the SMS channel has no provider, and the notification, number 3, is SENT.
\<close>

theorem createNotification_aggregate_status_witness:
  "\<exists>notification deliveryResults s2 resp s3.
     dispatchRound (NotificationProviderFactory exampleEnv) exampleNow 1 exampleDto exampleDb ()
       = (Inr (notification, deliveryResults), s2, ()) \<and>
     map success deliveryResults = [True, True, False] \<and>
     createNotification (NotificationProviderFactory exampleEnv) exampleNow 1 exampleDto exampleDb ()
       = (Inr resp, s3, ()) \<and>
     r_id resp = 3 \<and> r_status resp = SENT \<and>
     map n_status (filter (\<lambda>n. n_id n = 3) (notifications s3)) = [SENT]"
proof -
  have e: "case dispatchRound (NotificationProviderFactory exampleEnv) exampleNow 1 exampleDto
                  exampleDb () of
             (Inl e, s2, w2) \<Rightarrow> False
           | (Inr (notification, deliveryResults), s2, w2) \<Rightarrow>
               map success deliveryResults = [True, True, False] \<and> n_id (fst notification) = 3"
    by code_simp
  then obtain notification deliveryResults s2 where
    h: "dispatchRound (NotificationProviderFactory exampleEnv) exampleNow 1 exampleDto exampleDb ()
          = (Inr (notification, deliveryResults), s2, ())" and
    m: "map success deliveryResults = [True, True, False]" and i: "n_id (fst notification) = 3"
    by (auto split: prod.splits sum.splits)
  have ex: "list_ex (\<lambda>result. success result) deliveryResults"
    using m by (auto simp: list_ex_iff)
  obtain resp s3 where
    c: "createNotification (NotificationProviderFactory exampleEnv) exampleNow 1 exampleDto exampleDb ()
          = (Inr resp, s3, ())"
      "r_id resp = n_id (fst notification)"
      "r_status resp = (if list_ex (\<lambda>result. success result) deliveryResults then SENT else FAILED)"
      "map n_status (filter (\<lambda>n. n_id n = r_id resp) (notifications s3)) = [r_status resp]"
    using createNotification_aggregate_status [OF h] by auto
  show ?thesis
    using h m c ex i by auto
qed

text \<open>
  Claim C2. A create of a channel never leaves two channels with the same owner, kind and
  address: triples that were distinct stay distinct; a create whose triple has a row already
  fails and leaves the store as it was; and after a create that succeeded, a second create
  with the same owner, kind and address fails with the unique-index error and leaves the
  store as it was.
\<close>

theorem channel_triple_unique:
  assumes "distinct (map (\<lambda>c. (c_userId c, c_type c, c_value c)) (notificationChannels s))"
  shows "distinct (map (\<lambda>c. (c_userId c, c_type c, c_value c))
                    (notificationChannels (snd (createNotificationChannel F userId dto s)))) \<and>
         (list_ex (\<lambda>c. c_userId c = userId \<and> c_type c = cc_type dto \<and> c_value c = cc_value dto)
                  (notificationChannels s) \<longrightarrow>
            (\<exists>e. createNotificationChannel F userId dto s = (Inl e, s))) \<and>
         (\<forall>resp s1 dto'. createNotificationChannel F userId dto s = (Inr resp, s1) \<and>
              cc_type dto' = cc_type dto \<and> cc_value dto' = cc_value dto \<longrightarrow>
              createNotificationChannel F userId dto' s1
                = (Inl (PrismaClientKnownRequestError ''P2002''), s1))"
proof (intro conjI allI impI)
  show "distinct (map (\<lambda>c. (c_userId c, c_type c, c_value c))
                    (notificationChannels (snd (createNotificationChannel F userId dto s))))"
    using assms
    by (auto simp: createNotificationChannel_def notificationChannel_create_def Let_def
        list_ex_iff split: option.splits)
next
  assume "list_ex (\<lambda>c. c_userId c = userId \<and> c_type c = cc_type dto \<and> c_value c = cc_value dto)
                  (notificationChannels s)"
  then show "\<exists>e. createNotificationChannel F userId dto s = (Inl e, s)"
    by (simp add: createNotificationChannel_def notificationChannel_create_def Let_def
        split: option.splits)
next
  fix resp s1 and dto' :: CreateNotificationChannelDto
  assume a: "createNotificationChannel F userId dto s = (Inr resp, s1) \<and>
              cc_type dto' = cc_type dto \<and> cc_value dto' = cc_value dto"
  then have v: "factory_validateChannelValue F (cc_type dto) (cc_value dto)"
    by (auto simp: createNotificationChannel_def Let_def split: if_splits)
  obtain owner where o: "user_findUnique s userId = Some owner"
    using a v by (cases "user_findUnique s userId")
      (auto simp: createNotificationChannel_def notificationChannel_create_def Let_def)
  have ne: "\<not> list_ex (\<lambda>c. c_userId c = userId \<and> c_type c = cc_type dto \<and> c_value c = cc_value dto)
                  (notificationChannels s)"
    using a v o by (auto simp: createNotificationChannel_def notificationChannel_create_def Let_def
        split: if_splits)
  have s1: "users s1 = users s"
    "list_ex (\<lambda>c. c_userId c = userId \<and> c_type c = cc_type dto \<and> c_value c = cc_value dto)
                  (notificationChannels s1)"
    using a v o ne by (auto simp: createNotificationChannel_def notificationChannel_create_def Let_def)
  have o1: "user_findUnique s1 userId = Some owner"
    using o s1(1) by (simp add: user_findUnique_def)
  show "createNotificationChannel F userId dto' s1
                = (Inl (PrismaClientKnownRequestError ''P2002''), s1)"
    using a v o1 s1(2)
    by (simp add: createNotificationChannel_def notificationChannel_create_def Let_def)
qed

text \<open>
  The student adds a new email address on the small store and then adds it again: the first
  create succeeds, the second fails on the unique index, and the triples stay distinct.
\<close>

theorem channel_triple_unique_witness:
  "distinct (map (\<lambda>c. (c_userId c, c_type c, c_value c)) (notificationChannels exampleDb)) \<and>
   (\<exists>resp s1.
      createNotificationChannel (NotificationProviderFactory exampleEnv) 2 exampleChannelDto exampleDb
        = (Inr resp, s1) \<and>
      length (notificationChannels s1) = 5 \<and>
      distinct (map (\<lambda>c. (c_userId c, c_type c, c_value c)) (notificationChannels s1)) \<and>
      createNotificationChannel (NotificationProviderFactory exampleEnv) 2 exampleChannelDto s1
        = (Inl (PrismaClientKnownRequestError ''P2002''), s1))"
proof -
  let ?F = "NotificationProviderFactory exampleEnv"
  have h: "distinct (map (\<lambda>c. (c_userId c, c_type c, c_value c)) (notificationChannels exampleDb))"
    by code_simp
  have e: "case createNotificationChannel ?F 2 exampleChannelDto exampleDb of
             (Inl e, s1) \<Rightarrow> False
           | (Inr resp, s1) \<Rightarrow> length (notificationChannels s1) = 5"
    by code_simp
  then obtain resp s1 where
    c: "createNotificationChannel ?F 2 exampleChannelDto exampleDb = (Inr resp, s1)" and
    l: "length (notificationChannels s1) = 5"
    by (auto split: prod.splits sum.splits)
  note t = channel_triple_unique [OF h, of ?F 2 exampleChannelDto]
  have d: "distinct (map (\<lambda>c. (c_userId c, c_type c, c_value c)) (notificationChannels s1))"
    using t c by simp
  have "\<forall>resp s1 dto'. createNotificationChannel ?F 2 exampleChannelDto exampleDb = (Inr resp, s1) \<and>
              cc_type dto' = cc_type exampleChannelDto \<and> cc_value dto' = cc_value exampleChannelDto \<longrightarrow>
              createNotificationChannel ?F 2 dto' s1
                = (Inl (PrismaClientKnownRequestError ''P2002''), s1)"
    using t by blast
  then have "createNotificationChannel ?F 2 exampleChannelDto s1
                = (Inl (PrismaClientKnownRequestError ''P2002''), s1)"
    using c by blast
  then show ?thesis using h c l d by auto
qed

text \<open>
  Claim C3, as amended. The service starts with distinct identities and no request in flight
  and has run up to some point. One more call or resumption keeps every notification with
  its identity and recipient, and changes a status in two ways only: the write of
  \<^verbatim>\<open>markAsRead\<close> sets READ, on the notification its caller is the recipient of and whatever
  its status was; the last write of \<^verbatim>\<open>createNotification\<close> sets SENT or FAILED, on the
  notification that request created and whatever its status has become. A notification that
  is added is PENDING and is added by a \<^verbatim>\<open>createNotification\<close> past its lookup. A
  \<^verbatim>\<open>markAsRead\<close> comes to its write only from a call that found the notification with the
  caller as recipient, and a request is between create and status write only of a
  notification that was not there before it. From here on, whatever calls and resumptions
  follow, a notification whose \<^verbatim>\<open>createNotification\<close> is not in flight keeps its identity,
  and its status stays or becomes READ: once SENT, FAILED or READ is written, the one
  transition left is to READ.
\<close>

theorem status_transitions:
  assumes "distinct (map n_id (notifications s0))"
    and "run F now before (s0, w0, []) = (s, w, reqs)"
    and "step F now a (s, w, reqs) = (s', w', reqs')"
    and "run F now after (s, w, reqs) = (s'', w'', reqs'')"
  shows "length (notifications s) \<le> length (notifications s') \<and>
    (\<forall>i<length (notifications s).
        n_id (notifications s' ! i) = n_id (notifications s ! i) \<and>
        n_recipientId (notifications s' ! i) = n_recipientId (notifications s ! i) \<and>
        (n_status (notifications s' ! i) = n_status (notifications s ! i) \<or>
         (n_status (notifications s' ! i) = READ \<and>
          (\<exists>k. a = Resume k \<and> k < length reqs \<and>
               reqs ! k = Reading (n_recipientId (notifications s ! i))
                            (n_id (notifications s ! i)))) \<or>
         ((n_status (notifications s' ! i) = SENT \<or> n_status (notifications s' ! i) = FAILED) \<and>
          (\<exists>k n rs. a = Resume k \<and> k < length reqs \<and> reqs ! k = Sending n [] rs \<and>
                    n_id (fst n) = n_id (notifications s ! i))))) \<and>
    (\<forall>i. length (notifications s) \<le> i \<and> i < length (notifications s') \<longrightarrow>
        n_status (notifications s' ! i) = PENDING \<and>
        (\<exists>k senderId dto cs. a = Resume k \<and> k < length reqs \<and>
                             reqs ! k = Found senderId dto cs)) \<and>
    (\<forall>r\<in>set reqs'.
        r \<in> set reqs \<or>
        (\<exists>userId notificationId.
            r = Reading userId notificationId \<and> a = CallMarkAsRead userId notificationId \<and>
            list_ex (\<lambda>n. n_id n = notificationId \<and> n_recipientId n = userId) (notifications s)) \<or>
        (\<exists>senderId dto cs. r = Found senderId dto cs) \<or>
        (\<exists>n cs rs. r = Sending n cs rs \<and> list_ex (dispatches (n_id (fst n))) reqs) \<or>
        (\<exists>n c result stamp cs rs.
            r = Sent n c result stamp cs rs \<and> list_ex (dispatches (n_id (fst n))) reqs) \<or>
        (\<exists>n cs rs. r = Sending n cs rs \<and>
                   (\<forall>x\<in>set (notifications s). n_id x \<noteq> n_id (fst n)))) \<and>
    (\<forall>i<length (notifications s).
        \<not> list_ex (dispatches (n_id (notifications s ! i))) reqs \<longrightarrow>
        i < length (notifications s'') \<and>
        n_id (notifications s'' ! i) = n_id (notifications s ! i) \<and>
        \<not> list_ex (dispatches (n_id (notifications s'' ! i))) reqs'' \<and>
        (n_status (notifications s'' ! i) = n_status (notifications s ! i) \<or>
         n_status (notifications s'' ! i) = READ))"
proof -
  have "consistent s0 []" using assms(1) by (simp add: consistent_def)
  then have c: "consistent s reqs" using run_consistent [OF assms(2)] by simp
  have kept: "length (notifications s) \<le> length (notifications s')"
    "\<forall>i<length (notifications s).
        n_id (notifications s' ! i) = n_id (notifications s ! i) \<and>
        n_recipientId (notifications s' ! i) = n_recipientId (notifications s ! i)"
    using step_rows_kept [OF assms(3)] by simp_all
  have old: "\<forall>i<length (notifications s).
        n_id (notifications s' ! i) = n_id (notifications s ! i) \<and>
        n_recipientId (notifications s' ! i) = n_recipientId (notifications s ! i) \<and>
        (n_status (notifications s' ! i) = n_status (notifications s ! i) \<or>
         (n_status (notifications s' ! i) = READ \<and>
          (\<exists>k. a = Resume k \<and> k < length reqs \<and>
               reqs ! k = Reading (n_recipientId (notifications s ! i))
                            (n_id (notifications s ! i)))) \<or>
         ((n_status (notifications s' ! i) = SENT \<or> n_status (notifications s' ! i) = FAILED) \<and>
          (\<exists>k n rs. a = Resume k \<and> k < length reqs \<and> reqs ! k = Sending n [] rs \<and>
                    n_id (fst n) = n_id (notifications s ! i))))"
    using kept(2) step_status [OF assms(3) c] by simp
  have new: "\<forall>i. length (notifications s) \<le> i \<and> i < length (notifications s') \<longrightarrow>
        n_status (notifications s' ! i) = PENDING \<and>
        (\<exists>k senderId dto cs. a = Resume k \<and> k < length reqs \<and>
                             reqs ! k = Found senderId dto cs)"
    using step_new_rows [OF assms(3)] by blast
  have origin: "\<forall>r\<in>set reqs'.
        r \<in> set reqs \<or>
        (\<exists>userId notificationId.
            r = Reading userId notificationId \<and> a = CallMarkAsRead userId notificationId \<and>
            list_ex (\<lambda>n. n_id n = notificationId \<and> n_recipientId n = userId) (notifications s)) \<or>
        (\<exists>senderId dto cs. r = Found senderId dto cs) \<or>
        (\<exists>n cs rs. r = Sending n cs rs \<and> list_ex (dispatches (n_id (fst n))) reqs) \<or>
        (\<exists>n c result stamp cs rs.
            r = Sent n c result stamp cs rs \<and> list_ex (dispatches (n_id (fst n))) reqs) \<or>
        (\<exists>n cs rs. r = Sending n cs rs \<and>
                   (\<forall>x\<in>set (notifications s). n_id x \<noteq> n_id (fst n)))"
    using step_requests [OF assms(3)] by blast
  have later: "\<forall>i<length (notifications s).
        \<not> list_ex (dispatches (n_id (notifications s ! i))) reqs \<longrightarrow>
        i < length (notifications s'') \<and>
        n_id (notifications s'' ! i) = n_id (notifications s ! i) \<and>
        \<not> list_ex (dispatches (n_id (notifications s'' ! i))) reqs'' \<and>
        (n_status (notifications s'' ! i) = n_status (notifications s ! i) \<or>
         n_status (notifications s'' ! i) = READ)"
    using run_not_dispatched [OF assms(4)] by blast
  from kept(1) old new origin later show ?thesis by (intro conjI)
qed

text \<open>
  The teacher's request and the student's \<^verbatim>\<open>markAsRead\<close> of the new notification on the
  small store, interleaved: the notification is created, the student marks it as read while
  the sends are awaited, and the request of the teacher comes to its status write with the
  notification READ. The write makes it SENT and leaves the two older notifications as they
  are. If instead the student first marks the failed notification, that one becomes READ,
  and the read one stays READ.
\<close>

theorem status_transitions_witness:
  "\<exists>s reqs s' s''.
     distinct (map n_id (notifications exampleDb)) \<and>
     run (NotificationProviderFactory exampleEnv) exampleNow
         [CallCreateNotification 1 exampleDto, Resume 0, CallMarkAsRead 2 3, Resume 1,
          Resume 0, Resume 0, Resume 0, Resume 0, Resume 0, Resume 0]
         (exampleDb, (), []) = (s, (), reqs) \<and>
     map n_id (notifications s) = [1, 2, 3] \<and>
     map n_status (notifications s) = [FAILED, READ, READ] \<and>
     step (NotificationProviderFactory exampleEnv) exampleNow (Resume 0) (s, (), reqs)
       = (s', (), []) \<and>
     map n_status (notifications s') = [FAILED, READ, SENT] \<and>
     run (NotificationProviderFactory exampleEnv) exampleNow
         [CallMarkAsRead 2 1, Resume 1, Resume 0] (s, (), reqs) = (s'', (), []) \<and>
     map n_status (notifications s'') = [READ, READ, SENT]"
proof -
  let ?F = "NotificationProviderFactory exampleEnv"
  let ?before = "[CallCreateNotification 1 exampleDto, Resume 0, CallMarkAsRead 2 3, Resume 1,
                  Resume 0, Resume 0, Resume 0, Resume 0, Resume 0, Resume 0]"
  let ?after = "[CallMarkAsRead 2 1, Resume 1, Resume 0]"
  have d: "distinct (map n_id (notifications exampleDb))"
    by code_simp
  have e: "case run ?F exampleNow ?before (exampleDb, (), []) of
             (s, w, reqs) \<Rightarrow>
               map n_id (notifications s) = [1, 2, 3] \<and>
               map n_status (notifications s) = [FAILED, READ, READ] \<and>
               (case reqs of
                  [Sending n [] rs] \<Rightarrow> n_id (fst n) = 3
                | _ \<Rightarrow> False) \<and>
               (case step ?F exampleNow (Resume 0) (s, w, reqs) of
                  (s', w', reqs') \<Rightarrow>
                    length (notifications s') = 3 \<and> n_status (notifications s' ! 2) = SENT \<and>
                    reqs' = []) \<and>
               (case run ?F exampleNow ?after (s, w, reqs) of
                  (s'', w'', reqs'') \<Rightarrow>
                    length (notifications s'') = 3 \<and> n_status (notifications s'' ! 0) = READ \<and>
                    n_status (notifications s'' ! 2) = SENT \<and> reqs'' = [])"
    by code_simp
  obtain s reqs where
    r: "run ?F exampleNow ?before (exampleDb, (), []) = (s, (), reqs)"
    by (cases "run ?F exampleNow ?before (exampleDb, (), [])") auto
  obtain s' reqs' where
    st: "step ?F exampleNow (Resume 0) (s, (), reqs) = (s', (), reqs')"
    by (cases "step ?F exampleNow (Resume 0) (s, (), reqs)") auto
  obtain s'' reqs'' where
    r2: "run ?F exampleNow ?after (s, (), reqs) = (s'', (), reqs'')"
    by (cases "run ?F exampleNow ?after (s, (), reqs)") auto
  have ids: "map n_id (notifications s) = [1, 2, 3]"
    and sts: "map n_status (notifications s) = [FAILED, READ, READ]"
    and rq: "case reqs of [Sending n [] rs] \<Rightarrow> n_id (fst n) = 3 | _ \<Rightarrow> False"
    and e1: "length (notifications s') = 3" "n_status (notifications s' ! 2) = SENT" "reqs' = []"
    and e2: "length (notifications s'') = 3" "n_status (notifications s'' ! 0) = READ"
      "n_status (notifications s'' ! 2) = SENT" "reqs'' = []"
    using e unfolding r st r2 prod.case by simp_all
  obtain n rs where reqs: "reqs = [Sending n [] rs]" and n: "n_id (fst n) = 3"
    using rq by (auto split: list.splits inflight.splits)
  have l: "length (notifications s) = 3"
    using arg_cong [OF ids, of length] by simp
  have v: "n_id (notifications s ! 0) = 1" "n_id (notifications s ! 1) = 2"
    "n_status (notifications s ! 0) = FAILED" "n_status (notifications s ! 1) = READ"
    using arg_cong [OF ids, of "\<lambda>xs. xs ! 0"] arg_cong [OF ids, of "\<lambda>xs. xs ! 1"]
      arg_cong [OF sts, of "\<lambda>xs. xs ! 0"] arg_cong [OF sts, of "\<lambda>xs. xs ! 1"] l
    by simp_all
  note t = status_transitions [OF d r st r2]
  have old: "\<forall>i<length (notifications s).
        n_status (notifications s' ! i) = n_status (notifications s ! i) \<or>
        (n_status (notifications s' ! i) = READ \<and>
         (\<exists>k. Resume 0 = Resume k \<and> k < length reqs \<and>
              reqs ! k = Reading (n_recipientId (notifications s ! i))
                           (n_id (notifications s ! i)))) \<or>
        ((n_status (notifications s' ! i) = SENT \<or> n_status (notifications s' ! i) = FAILED) \<and>
         (\<exists>k n rs. Resume 0 = Resume k \<and> k < length reqs \<and> reqs ! k = Sending n [] rs \<and>
                   n_id (fst n) = n_id (notifications s ! i)))"
    using t by blast
  have later: "\<forall>i<length (notifications s).
        \<not> list_ex (dispatches (n_id (notifications s ! i))) reqs \<longrightarrow>
        n_status (notifications s'' ! i) = n_status (notifications s ! i) \<or>
        n_status (notifications s'' ! i) = READ"
    using t by blast
  have a0: "n_status (notifications s' ! 0) = FAILED"
    using old [rule_format, of 0] l v reqs n by auto
  have a1: "n_status (notifications s' ! 1) = READ"
    using old [rule_format, of 1] l v reqs n by auto
  have b1: "n_status (notifications s'' ! 1) = READ"
    using later [rule_format, of 1] l v reqs n by auto
  have m1: "map n_status (notifications s') = [FAILED, READ, SENT]"
    using map_three [OF e1(1), of n_status] a0 a1 e1(2) by simp
  have m2: "map n_status (notifications s'') = [READ, READ, SENT]"
    using map_three [OF e2(1), of n_status] b1 e2(2,3) by simp
  have st': "step ?F exampleNow (Resume 0) (s, (), reqs) = (s', (), [])"
    using st e1(3) by simp
  have r2': "run ?F exampleNow ?after (s, (), reqs) = (s'', (), [])"
    using r2 e2(4) by simp
  show ?thesis
    by (rule exI [of _ s], rule exI [of _ reqs], rule exI [of _ s'], rule exI [of _ s''])
      (intro conjI d r ids sts st' m1 r2' m2)
qed

text \<open>
  Against the claim as first stated: notification 1 of the small store is FAILED, the
  student marks it as read, and its status in the response and in the store is READ.
\<close>

theorem markAsRead_leaves_failed:
  "map n_status (notifications exampleDb) = [FAILED, READ] \<and>
   fst (markAsRead 2 1 exampleDb) =
     Inr \<lparr>r_id = 1, r_title = ''Old'', r_message = ''first'', r_type = SYSTEM, r_status = READ,
          r_senderId = 1, r_recipientId = 2, r_deliveries = None\<rparr> \<and>
   map n_status (notifications (snd (markAsRead 2 1 exampleDb))) = [READ, READ]"
  by code_simp

text \<open>
  Claim C4, as amended. With the email and the push provider behind the factory, a round adds
  exactly one delivery row per target channel, in order, each for the notification and its
  channel. The row of a success has the status DELIVERED, \<^verbatim>\<open>sentAt\<close> and \<^verbatim>\<open>deliveredAt\<close>
  set, no \<^verbatim>\<open>failedAt\<close> and no error message; the row of a failure has the status FAILED,
  \<^verbatim>\<open>failedAt\<close> and an error message set and neither \<^verbatim>\<open>sentAt\<close> nor \<^verbatim>\<open>deliveredAt\<close>. The
  error message is there exactly when the status is FAILED or RETRY.
\<close>

theorem delivery_records:
  assumes "sendToChannels (NotificationProviderFactory env) now n cs s w = (rs, s2, w2)"
  shows "\<exists>new. notificationDeliveries s2 = notificationDeliveries s @ new \<and>
           list_all2 (\<lambda>c d. d_channelId d = c_id c \<and> d_notificationId d = n_id (fst n)) cs new \<and>
           list_all2 (\<lambda>r d.
              ((success r \<and> d_status d = DELIVERY_DELIVERED \<and> d_sentAt d \<noteq> None \<and>
                d_deliveredAt d \<noteq> None \<and> d_failedAt d = None \<and> d_errorMessage d = None) \<or>
               (\<not> success r \<and> d_status d = DELIVERY_FAILED \<and> d_sentAt d = None \<and>
                d_deliveredAt d = None \<and> d_failedAt d \<noteq> None \<and> d_errorMessage d \<noteq> None)) \<and>
              ((d_errorMessage d \<noteq> None) =
                 (d_status d = DELIVERY_FAILED \<or> d_status d = DELIVERY_RETRY))) rs new"
proof -
  have "\<exists>new. notificationDeliveries s2 = notificationDeliveries s @ new \<and>
           list_all2 (\<lambda>c r. channelType r = c_type c \<and> channelValue r = c_value c \<and>
                            outcomeShape (success r) (status r) (errorMessage r)) cs rs \<and>
           list_all2 (\<lambda>c d. d_channelId d = c_id c \<and> d_notificationId d = n_id (fst n)) cs new \<and>
           list_all2 (\<lambda>r d. d_id d = deliveryId r \<and> d_status d = status r \<and>
                            (d_sentAt d \<noteq> None) = success r \<and>
                            (d_deliveredAt d \<noteq> None) = (status r = DELIVERY_DELIVERED) \<and>
                            (d_failedAt d \<noteq> None) = (\<not> success r) \<and>
                            d_errorMessage d = errorMessage r \<and>
                            d_retryCount d = 0 \<and> retryCount r = 0) rs new"
    by (rule sendToChannels_rows [OF assms, of "\<lambda>ty. outcomeShape"]) (rule factory_result_shape)
  then obtain new where
    d: "notificationDeliveries s2 = notificationDeliveries s @ new" and
    cr: "list_all2 (\<lambda>c r. channelType r = c_type c \<and> channelValue r = c_value c \<and>
                          outcomeShape (success r) (status r) (errorMessage r)) cs rs" and
    cd: "list_all2 (\<lambda>c d. d_channelId d = c_id c \<and> d_notificationId d = n_id (fst n)) cs new" and
    rd: "list_all2 (\<lambda>r d. d_id d = deliveryId r \<and> d_status d = status r \<and>
                            (d_sentAt d \<noteq> None) = success r \<and>
                            (d_deliveredAt d \<noteq> None) = (status r = DELIVERY_DELIVERED) \<and>
                            (d_failedAt d \<noteq> None) = (\<not> success r) \<and>
                            d_errorMessage d = errorMessage r \<and>
                            d_retryCount d = 0 \<and> retryCount r = 0) rs new"
    by blast
  have sh: "\<forall>i<length rs. outcomeShape (success (rs ! i)) (status (rs ! i)) (errorMessage (rs ! i))"
    using cr by (auto simp: list_all2_conv_all_nth)
  have "list_all2 (\<lambda>r d.
              ((success r \<and> d_status d = DELIVERY_DELIVERED \<and> d_sentAt d \<noteq> None \<and>
                d_deliveredAt d \<noteq> None \<and> d_failedAt d = None \<and> d_errorMessage d = None) \<or>
               (\<not> success r \<and> d_status d = DELIVERY_FAILED \<and> d_sentAt d = None \<and>
                d_deliveredAt d = None \<and> d_failedAt d \<noteq> None \<and> d_errorMessage d \<noteq> None)) \<and>
              ((d_errorMessage d \<noteq> None) =
                 (d_status d = DELIVERY_FAILED \<or> d_status d = DELIVERY_RETRY))) rs new"
    unfolding list_all2_conv_all_nth
  proof (intro conjI allI impI)
    show "length rs = length new" using rd by (rule list_all2_lengthD)
  next
    fix i assume i: "i < length rs"
    have a: "outcomeShape (success (rs ! i)) (status (rs ! i)) (errorMessage (rs ! i))"
      using sh i by blast
    have b: "d_status (new ! i) = status (rs ! i)" "(d_sentAt (new ! i) \<noteq> None) = success (rs ! i)"
      "(d_deliveredAt (new ! i) \<noteq> None) = (status (rs ! i) = DELIVERY_DELIVERED)"
      "(d_failedAt (new ! i) \<noteq> None) = (\<not> success (rs ! i))"
      "d_errorMessage (new ! i) = errorMessage (rs ! i)"
      using list_all2_nthD [OF rd i] by auto
    show "(success (rs ! i) \<and> d_status (new ! i) = DELIVERY_DELIVERED \<and> d_sentAt (new ! i) \<noteq> None \<and>
                d_deliveredAt (new ! i) \<noteq> None \<and> d_failedAt (new ! i) = None \<and> d_errorMessage (new ! i) = None) \<or>
               (\<not> success (rs ! i) \<and> d_status (new ! i) = DELIVERY_FAILED \<and> d_sentAt (new ! i) = None \<and>
                d_deliveredAt (new ! i) = None \<and> d_failedAt (new ! i) \<noteq> None \<and> d_errorMessage (new ! i) \<noteq> None)"
      using a b unfolding outcomeShape_def by auto
    show "(d_errorMessage (new ! i) \<noteq> None) =
                 (d_status (new ! i) = DELIVERY_FAILED \<or> d_status (new ! i) = DELIVERY_RETRY)"
      using a b unfolding outcomeShape_def by auto
  qed
  then show ?thesis using d cd by blast
qed

text \<open>
  A round over the first email channel and the SMS channel on the small store, with the
  factory as the module wires it: the email row is DELIVERED, the SMS row FAILED.
\<close>

theorem delivery_records_witness:
  "\<exists>rs s2 new.
     sendToChannels (NotificationProviderFactory exampleEnv) exampleNow
         (exampleFailedNotification, exampleTeacher) [exampleEmailChannel, exampleSmsChannel]
         exampleDb () = (rs, s2, ()) \<and>
     map success rs = [True, False] \<and>
     notificationDeliveries s2 = notificationDeliveries exampleDb @ new \<and>
     map d_channelId new = [1, 3] \<and>
     map d_status new = [DELIVERY_DELIVERED, DELIVERY_FAILED] \<and>
     map d_failedAt new = [None, Some 1000]"
proof -
  let ?n = "(exampleFailedNotification, exampleTeacher)"
  have e: "case sendToChannels (NotificationProviderFactory exampleEnv) exampleNow ?n
                  [exampleEmailChannel, exampleSmsChannel] exampleDb () of
             (rs, s2, w2) \<Rightarrow>
               map success rs = [True, False] \<and>
               map d_failedAt (notificationDeliveries s2) = [None, Some 1000]"
    by code_simp
  then obtain rs s2 where
    h: "sendToChannels (NotificationProviderFactory exampleEnv) exampleNow ?n
          [exampleEmailChannel, exampleSmsChannel] exampleDb () = (rs, s2, ())" and
    m: "map success rs = [True, False]" and
    fa: "map d_failedAt (notificationDeliveries s2) = [None, Some 1000]"
    by (auto split: prod.splits)
  have v: "c_id exampleEmailChannel = 1" "c_id exampleSmsChannel = 3"
    "notificationDeliveries exampleDb = []"
    by (simp_all add: exampleEmailChannel_def exampleSmsChannel_def exampleDb_def)
  obtain new where
    d: "notificationDeliveries s2 = notificationDeliveries exampleDb @ new" and
    cd: "list_all2 (\<lambda>c d. d_channelId d = c_id c \<and> d_notificationId d = n_id (fst ?n))
           [exampleEmailChannel, exampleSmsChannel] new" and
    rd: "list_all2 (\<lambda>r d.
              ((success r \<and> d_status d = DELIVERY_DELIVERED \<and> d_sentAt d \<noteq> None \<and>
                d_deliveredAt d \<noteq> None \<and> d_failedAt d = None \<and> d_errorMessage d = None) \<or>
               (\<not> success r \<and> d_status d = DELIVERY_FAILED \<and> d_sentAt d = None \<and>
                d_deliveredAt d = None \<and> d_failedAt d \<noteq> None \<and> d_errorMessage d \<noteq> None)) \<and>
              ((d_errorMessage d \<noteq> None) =
                 (d_status d = DELIVERY_FAILED \<or> d_status d = DELIVERY_RETRY))) rs new"
    using delivery_records [OF h] by auto
  obtain r1 r2 where rs: "rs = [r1, r2]" "success r1" "\<not> success r2"
    using m by (auto simp: map_eq_Cons_conv)
  have "map d_channelId new = [1, 3]"
    using cd v by (auto simp: list_all2_Cons1)
  moreover have "map d_status new = [DELIVERY_DELIVERED, DELIVERY_FAILED]"
    using rd rs by (auto simp: list_all2_Cons1)
  moreover have "map d_failedAt new = [None, Some 1000]"
    using fa d v by simp
  ultimately show ?thesis using h m d by auto
qed

text \<open>
  Against the claim as first stated: the send through the first email channel of the small
  store succeeds, and the status of its delivery row is DELIVERED, not SENT; the row has
  \<^verbatim>\<open>sentAt\<close> and \<^verbatim>\<open>deliveredAt\<close> both.
\<close>

theorem delivery_record_of_success_is_delivered:
  "map success (fst (sendToChannels (NotificationProviderFactory exampleEnv) exampleNow
                       (exampleFailedNotification, exampleTeacher) [exampleEmailChannel]
                       exampleDb ())) = [True] \<and>
   notificationDeliveries (fst (snd (sendToChannels (NotificationProviderFactory exampleEnv)
                       exampleNow (exampleFailedNotification, exampleTeacher)
                       [exampleEmailChannel] exampleDb ())))
     = [\<lparr>d_id = 1, d_notificationId = 1, d_channelId = 1, d_status = DELIVERY_DELIVERED,
         d_sentAt = Some 1000, d_deliveredAt = Some 1000, d_failedAt = None,
         d_errorMessage = None, d_retryCount = 0\<rparr>] \<and>
   DELIVERY_DELIVERED \<noteq> DELIVERY_SENT"
  by code_simp

text \<open>
  Claim C5. When the recipient of a request has no row, \<^verbatim>\<open>createNotification\<close> fails with
  the not-found exception, and the store and the world are as before: no notification and
  no delivery row is written and nothing is sent.
\<close>

theorem createNotification_recipient_missing:
  assumes "user_findUnique s (dto_recipientId dto) = None"
  shows "createNotification F now senderId dto s w
           = (Inl (NotFoundException ''Recipient not found''), s, w)"
  using assms by (simp add: createNotification_def dispatchRound_def)

text \<open>The request for user 9, who has no row, on the small store.\<close>

theorem createNotification_recipient_missing_witness:
  "user_findUnique exampleDb (dto_recipientId (exampleDto\<lparr>dto_recipientId := 9\<rparr>)) = None \<and>
   createNotification (NotificationProviderFactory exampleEnv) exampleNow 1
       (exampleDto\<lparr>dto_recipientId := 9\<rparr>) exampleDb ()
     = (Inl (NotFoundException ''Recipient not found''), exampleDb, ())"
proof -
  have h: "user_findUnique exampleDb (dto_recipientId (exampleDto\<lparr>dto_recipientId := 9\<rparr>)) = None"
    by code_simp
  show ?thesis
    using createNotification_recipient_missing [OF h] h by simp
qed

text \<open>
  Claim C6. The targets of a round are the channels of the recipient that are active and,
  when the request carries a list of kinds, whose kind is in the list; without a list they
  are all the active channels. The round makes one send per target, in the order of the
  targets, with no merging of channels of the same kind: its results and the world it
  leaves are those of calling, for each target in turn, the provider of its kind once with
  the address and the metadata of the channel and the payload of the request. Each target
  has its result and its new delivery row.
\<close>

theorem channel_resolution:
  assumes "dispatchRound F now senderId dto s w = (Inr (notification, deliveryResults), s2, w2)"
  shows "\<exists>new. notificationDeliveries s2 = notificationDeliveries s @ new \<and>
           list_all2 (\<lambda>c r. channelType r = c_type c \<and> channelValue r = c_value c)
             (filter (\<lambda>c. c_userId c = dto_recipientId dto \<and> c_isActive c \<and>
                          (case dto_channels dto of None \<Rightarrow> True
                           | Some kinds \<Rightarrow> c_type c \<in> set kinds))
                (notificationChannels s))
             deliveryResults \<and>
           list_all2 (\<lambda>c d. d_channelId d = c_id c \<and> d_notificationId d = n_id (fst notification))
             (filter (\<lambda>c. c_userId c = dto_recipientId dto \<and> c_isActive c \<and>
                          (case dto_channels dto of None \<Rightarrow> True
                           | Some kinds \<Rightarrow> c_type c \<in> set kinds))
                (notificationChannels s))
             new \<and>
           user_findUnique s senderId = Some (snd notification) \<and>
           sendEach F
             \<lparr>p_title = dto_title dto, p_message = dto_message dto, p_type = dto_type dto,
              p_senderName = u_name (snd notification),
              p_senderEmail = u_email (snd notification)\<rparr>
             (filter (\<lambda>c. c_userId c = dto_recipientId dto \<and> c_isActive c \<and>
                          (case dto_channels dto of None \<Rightarrow> True
                           | Some kinds \<Rightarrow> c_type c \<in> set kinds))
                (notificationChannels s))
             w
           = (map (\<lambda>r. \<lparr>success = success r, status = status r, errorMessage = errorMessage r\<rparr>)
                deliveryResults, w2)"
proof -
  obtain recipient s1 where
    r: "user_findUnique s (dto_recipientId dto) = Some recipient" and
    c: "notification_create (dto_title dto) (dto_message dto) (dto_type dto) senderId
             (dto_recipientId dto) PENDING s = (Inr notification, s1)" and
    t: "sendToChannels F now notification
             (resolveChannels (activeChannelsOf s (u_id recipient)) (dto_channels dto)) s1 w
             = (deliveryResults, s2, w2)"
    using dispatchRound_Inr [OF assms] by blast
  obtain n sender where ns: "notification = (n, sender)" by (cases notification)
  have s1: "notificationDeliveries s1 = notificationDeliveries s"
    using notification_create_Inr [OF c [unfolded ns]] by simp
  have fields: "n_title n = dto_title dto" "n_message n = dto_message dto"
    "n_type n = dto_type dto" "user_findUnique s senderId = Some sender"
    using notification_create_fields [OF c [unfolded ns]] by simp_all
  have rows: "\<exists>new. notificationDeliveries s2 = notificationDeliveries s1 @ new \<and>
           list_all2 (\<lambda>c r. channelType r = c_type c \<and> channelValue r = c_value c \<and> True)
             (resolveChannels (activeChannelsOf s (u_id recipient)) (dto_channels dto)) deliveryResults \<and>
           list_all2 (\<lambda>c d. d_channelId d = c_id c \<and> d_notificationId d = n_id (fst notification))
             (resolveChannels (activeChannelsOf s (u_id recipient)) (dto_channels dto)) new \<and>
           list_all2 (\<lambda>r d. d_id d = deliveryId r \<and> d_status d = status r \<and>
                            (d_sentAt d \<noteq> None) = success r \<and>
                            (d_deliveredAt d \<noteq> None) = (status r = DELIVERY_DELIVERED) \<and>
                            (d_failedAt d \<noteq> None) = (\<not> success r) \<and>
                            d_errorMessage d = errorMessage r \<and>
                            d_retryCount d = 0 \<and> retryCount r = 0) deliveryResults new"
    by (rule sendToChannels_rows [OF t, of "\<lambda>_ _ _ _. True"]) simp
  have each: "sendEach F
           \<lparr>p_title = dto_title dto, p_message = dto_message dto, p_type = dto_type dto,
            p_senderName = u_name (snd notification), p_senderEmail = u_email (snd notification)\<rparr>
           (resolveChannels (activeChannelsOf s (u_id recipient)) (dto_channels dto)) w
         = (map (\<lambda>r. \<lparr>success = success r, status = status r, errorMessage = errorMessage r\<rparr>)
              deliveryResults, w2)"
    using sendToChannels_sendEach [OF t] fields unfolding ns by simp
  have sender: "user_findUnique s senderId = Some (snd notification)"
    using fields ns by simp
  from rows each sender show ?thesis
    unfolding user_findUnique_id [OF r] resolveChannels_filter s1 by auto
qed

text \<open>
  The request without a list of kinds on the small store, with the counting factory and no
  send made yet: the two active email channels and the SMS channel are the targets, the
  channel switched off is not; each of the two email channels gets its own send, so that
  the world counts two, and the SMS channel, without provider, gets none.
\<close>

theorem channel_resolution_witness:
  "\<exists>notification deliveryResults s2 new.
     dispatchRound exampleCountingFactory (\<lambda>w. 1000) 1 exampleDto exampleDb 0
       = (Inr (notification, deliveryResults), s2, 2) \<and>
     notificationDeliveries s2 = notificationDeliveries exampleDb @ new \<and>
     map channelType deliveryResults = [EMAIL, EMAIL, SMS] \<and>
     map channelValue deliveryResults = [''student@school.com'', ''parent@home.org'', ''+15550100''] \<and>
     map d_channelId new = [1, 2, 3] \<and>
     sendEach exampleCountingFactory exampleRoundPayload
       [exampleEmailChannel, exampleSecondEmailChannel, exampleSmsChannel] 0
       = (map (\<lambda>r. \<lparr>success = success r, status = status r, errorMessage = errorMessage r\<rparr>)
            deliveryResults, 2) \<and>
     map success deliveryResults = [True, True, False]"
proof -
  have e: "case dispatchRound exampleCountingFactory (\<lambda>w. 1000) 1 exampleDto exampleDb 0 of
             (Inl e, s2, w2) \<Rightarrow> False
           | (Inr (notification, deliveryResults), s2, w2) \<Rightarrow>
               w2 = 2 \<and> snd notification = exampleTeacher \<and>
               map success deliveryResults = [True, True, False]"
    by code_simp
  then obtain notification deliveryResults s2 where
    h: "dispatchRound exampleCountingFactory (\<lambda>w. 1000) 1 exampleDto exampleDb 0
          = (Inr (notification, deliveryResults), s2, 2)" and
    sender: "snd notification = exampleTeacher" and
    m: "map success deliveryResults = [True, True, False]"
    by (auto split: prod.splits sum.splits)
  have f: "filter (\<lambda>c. c_userId c = dto_recipientId exampleDto \<and> c_isActive c \<and>
                          (case dto_channels exampleDto of None \<Rightarrow> True
                           | Some kinds \<Rightarrow> c_type c \<in> set kinds))
                (notificationChannels exampleDb)
             = [exampleEmailChannel, exampleSecondEmailChannel, exampleSmsChannel]"
    by code_simp
  have p: "\<lparr>p_title = dto_title exampleDto, p_message = dto_message exampleDto,
            p_type = dto_type exampleDto, p_senderName = u_name exampleTeacher,
            p_senderEmail = u_email exampleTeacher\<rparr> = exampleRoundPayload"
    by (simp add: exampleRoundPayload_def exampleDto_def exampleTeacher_def)
  have v: "c_type exampleEmailChannel = EMAIL" "c_type exampleSecondEmailChannel = EMAIL"
    "c_type exampleSmsChannel = SMS" "c_value exampleEmailChannel = ''student@school.com''"
    "c_value exampleSecondEmailChannel = ''parent@home.org''"
    "c_value exampleSmsChannel = ''+15550100''"
    "c_id exampleEmailChannel = 1" "c_id exampleSecondEmailChannel = 2" "c_id exampleSmsChannel = 3"
    by (simp_all add: exampleEmailChannel_def exampleSecondEmailChannel_def exampleSmsChannel_def)
  obtain new where
    d: "notificationDeliveries s2 = notificationDeliveries exampleDb @ new" and
    cr: "list_all2 (\<lambda>c r. channelType r = c_type c \<and> channelValue r = c_value c)
           [exampleEmailChannel, exampleSecondEmailChannel, exampleSmsChannel] deliveryResults" and
    cd: "list_all2 (\<lambda>c d. d_channelId d = c_id c \<and> d_notificationId d = n_id (fst notification))
           [exampleEmailChannel, exampleSecondEmailChannel, exampleSmsChannel] new" and
    each: "sendEach exampleCountingFactory exampleRoundPayload
             [exampleEmailChannel, exampleSecondEmailChannel, exampleSmsChannel] 0
           = (map (\<lambda>r. \<lparr>success = success r, status = status r, errorMessage = errorMessage r\<rparr>)
                deliveryResults, 2)"
    using channel_resolution [OF h] unfolding f sender p by auto
  have "map channelType deliveryResults = [EMAIL, EMAIL, SMS]"
    "map channelValue deliveryResults = [''student@school.com'', ''parent@home.org'', ''+15550100'']"
    using cr v by (auto simp: list_all2_Cons1)
  moreover have "map d_channelId new = [1, 2, 3]"
    using cd v by (auto simp: list_all2_Cons1)
  ultimately show ?thesis using h d each m by auto
qed

text \<open>
  Claim C7. For a kind without a registered provider the factory's \<^verbatim>\<open>sendNotification\<close>
  returns a failure whose message names the kind, and touches nothing outside. When such a
  channel is among the targets of a request whose sender and recipient exist, the request
  succeeds, a delivery row of that channel is written with the status FAILED, \<^verbatim>\<open>failedAt\<close>
  set and that message, and the response lists the failed delivery.
\<close>

theorem handler_absent:
  assumes "user_findUnique s (dto_recipientId dto) = Some recipient"
    and "user_findUnique s senderId = Some sender"
    and "c \<in> set (resolveChannels (activeChannelsOf s (dto_recipientId dto)) (dto_channels dto))"
    and "getProvider F (c_type c) = None"
  shows "sendNotification F (c_type c) v payload md w =
           (\<lparr>success = False, status = DELIVERY_FAILED,
             errorMessage = Some (''No provider available for channel type: ''
                                  @ channelTypeString (c_type c))\<rparr>, w) \<and>
         (\<exists>resp s3 w3. createNotification F now senderId dto s w = (Inr resp, s3, w3) \<and>
            (\<exists>d. d \<in> set (notificationDeliveries s3) \<and>
               d_notificationId d = r_id resp \<and> d_channelId d = c_id c \<and>
               d_status d = DELIVERY_FAILED \<and> d_sentAt d = None \<and> d_failedAt d \<noteq> None \<and>
               d_errorMessage d = Some (''No provider available for channel type: ''
                                        @ channelTypeString (c_type c))) \<and>
            (\<exists>dds dd. r_deliveries resp = Some dds \<and> dd \<in> set dds \<and>
               dd_channelType dd = c_type c \<and> dd_channelValue dd = c_value c \<and>
               dd_status dd = DELIVERY_FAILED \<and>
               dd_errorMessage dd = Some (''No provider available for channel type: ''
                                          @ channelTypeString (c_type c))))"
proof -
  let ?msg = "\<lambda>ty. Some (''No provider available for channel type: '' @ channelTypeString ty)"
  let ?Q = "\<lambda>ty succ st m. getProvider F ty = None \<longrightarrow>
               \<not> succ \<and> st = DELIVERY_FAILED \<and> m = ?msg ty"
  let ?cs = "resolveChannels (activeChannelsOf s (dto_recipientId dto)) (dto_channels dto)"
  obtain n rs s2 w2 where
    round: "dispatchRound F now senderId dto s w = (Inr (n, rs), s2, w2)"
    using dispatchRound_total [OF assms(1,2), of F now w] by auto
  obtain recipient' s1 where
    r: "user_findUnique s (dto_recipientId dto) = Some recipient'" and
    c: "notification_create (dto_title dto) (dto_message dto) (dto_type dto) senderId
             (dto_recipientId dto) PENDING s = (Inr n, s1)" and
    t: "sendToChannels F now n
             (resolveChannels (activeChannelsOf s (u_id recipient')) (dto_channels dto)) s1 w
             = (rs, s2, w2)"
    using dispatchRound_Inr [OF round] by blast
  have t': "sendToChannels F now n ?cs s1 w = (rs, s2, w2)"
    using t user_findUnique_id [OF r] by simp
  obtain new where
    d: "notificationDeliveries s2 = notificationDeliveries s1 @ new" and
    cr: "list_all2 (\<lambda>c r. channelType r = c_type c \<and> channelValue r = c_value c \<and>
                          ?Q (c_type c) (success r) (status r) (errorMessage r)) ?cs rs" and
    cd: "list_all2 (\<lambda>c d. d_channelId d = c_id c \<and> d_notificationId d = n_id (fst n)) ?cs new" and
    rd: "list_all2 (\<lambda>r d. d_id d = deliveryId r \<and> d_status d = status r \<and>
                            (d_sentAt d \<noteq> None) = success r \<and>
                            (d_deliveredAt d \<noteq> None) = (status r = DELIVERY_DELIVERED) \<and>
                            (d_failedAt d \<noteq> None) = (\<not> success r) \<and>
                            d_errorMessage d = errorMessage r \<and>
                            d_retryCount d = 0 \<and> retryCount r = 0) rs new"
    using sendToChannels_rows [OF t', of ?Q] by (auto simp: sendNotification_absent)
  obtain i where i: "i < length ?cs" "?cs ! i = c"
    using assms(3) by (auto simp: in_set_conv_nth)
  have lr: "length rs = length ?cs" and ln: "length new = length ?cs"
    using cr cd by (auto dest: list_all2_lengthD)
  have ri: "channelType (rs ! i) = c_type c" "channelValue (rs ! i) = c_value c"
    "\<not> success (rs ! i)" "status (rs ! i) = DELIVERY_FAILED" "errorMessage (rs ! i) = ?msg (c_type c)"
    using list_all2_nthD [OF cr i(1)] i(2) assms(4) by auto
  have di: "d_channelId (new ! i) = c_id c" "d_notificationId (new ! i) = n_id (fst n)"
    using list_all2_nthD [OF cd i(1)] i(2) by auto
  have dri: "d_status (new ! i) = DELIVERY_FAILED" "d_sentAt (new ! i) = None"
    "d_failedAt (new ! i) \<noteq> None" "d_errorMessage (new ! i) = ?msg (c_type c)"
    using list_all2_nthD [OF rd, of i] i(1) lr ri by auto
  obtain resp s3 where
    cn: "createNotification F now senderId dto s w = (Inr resp, s3, w2)" and
    rid: "r_id resp = n_id (fst n)" and
    dels: "r_deliveries resp = Some (map toDeliveryDto rs)" and
    s3: "notificationDeliveries s3 = notificationDeliveries s2"
    using createNotification_after_round [OF round] by auto
  have "new ! i \<in> set (notificationDeliveries s3)"
    using s3 d i(1) ln by simp
  moreover have "toDeliveryDto (rs ! i) \<in> set (map toDeliveryDto rs)"
    using i(1) lr by simp
  ultimately show ?thesis
    using sendNotification_absent [OF assms(4)] cn rid ri di dri dels
    by (auto simp: toDeliveryDto_def intro!: exI [of _ "new ! i"] exI [of _ "toDeliveryDto (rs ! i)"])
qed

text \<open>
  The SMS channel of the student on the small store: no provider is registered for SMS,
  the request of the teacher succeeds, and the delivery of that channel is FAILED with the
  message that names SMS.
\<close>

theorem handler_absent_witness:
  "user_findUnique exampleDb (dto_recipientId exampleDto) = Some exampleStudent \<and>
   user_findUnique exampleDb 1 = Some exampleTeacher \<and>
   exampleSmsChannel
     \<in> set (resolveChannels (activeChannelsOf exampleDb (dto_recipientId exampleDto))
              (dto_channels exampleDto)) \<and>
   getProvider (NotificationProviderFactory exampleEnv) (c_type exampleSmsChannel) = None \<and>
   sendNotification (NotificationProviderFactory exampleEnv) SMS ''+15550100'' examplePayload [] ()
     = (\<lparr>success = False, status = DELIVERY_FAILED,
         errorMessage = Some ''No provider available for channel type: SMS''\<rparr>, ()) \<and>
   (\<exists>resp s3 d dds dd.
      createNotification (NotificationProviderFactory exampleEnv) exampleNow 1 exampleDto exampleDb ()
        = (Inr resp, s3, ()) \<and>
      d \<in> set (notificationDeliveries s3) \<and> d_notificationId d = r_id resp \<and> d_channelId d = 3 \<and>
      d_status d = DELIVERY_FAILED \<and>
      d_errorMessage d = Some ''No provider available for channel type: SMS'' \<and>
      r_deliveries resp = Some dds \<and> dd \<in> set dds \<and> dd_channelType dd = SMS \<and>
      dd_status dd = DELIVERY_FAILED \<and>
      dd_errorMessage dd = Some ''No provider available for channel type: SMS'')"
proof -
  have h1: "user_findUnique exampleDb (dto_recipientId exampleDto) = Some exampleStudent"
    by code_simp
  have h2: "user_findUnique exampleDb 1 = Some exampleTeacher"
    by code_simp
  have h3: "exampleSmsChannel
     \<in> set (resolveChannels (activeChannelsOf exampleDb (dto_recipientId exampleDto))
              (dto_channels exampleDto))"
    by code_simp
  have h4: "getProvider (NotificationProviderFactory exampleEnv) (c_type exampleSmsChannel) = None"
    by (simp add: NotificationProviderFactory_def getProvider_registered exampleSmsChannel_def)
  have v: "c_type exampleSmsChannel = SMS" "c_value exampleSmsChannel = ''+15550100''"
    "c_id exampleSmsChannel = 3"
    by (simp_all add: exampleSmsChannel_def)
  note t = handler_absent [OF h1 h2 h3 h4, of "''+15550100''" examplePayload "[]" "()" exampleNow,
      unfolded v, simplified]
  obtain resp s3 w3 d dds dd where
    c: "createNotification (NotificationProviderFactory exampleEnv) exampleNow 1 exampleDto exampleDb ()
          = (Inr resp, s3, w3)"
      "d \<in> set (notificationDeliveries s3)" "d_notificationId d = r_id resp" "d_channelId d = 3"
      "d_status d = DELIVERY_FAILED"
      "d_errorMessage d = Some ''No provider available for channel type: SMS''"
      "r_deliveries resp = Some dds" "dd \<in> set dds" "dd_channelType dd = SMS"
      "dd_status dd = DELIVERY_FAILED"
      "dd_errorMessage dd = Some ''No provider available for channel type: SMS''"
    using t by auto
  have "\<exists>resp s3 d dds dd.
      createNotification (NotificationProviderFactory exampleEnv) exampleNow 1 exampleDto exampleDb ()
        = (Inr resp, s3, ()) \<and>
      d \<in> set (notificationDeliveries s3) \<and> d_notificationId d = r_id resp \<and> d_channelId d = 3 \<and>
      d_status d = DELIVERY_FAILED \<and>
      d_errorMessage d = Some ''No provider available for channel type: SMS'' \<and>
      r_deliveries resp = Some dds \<and> dd \<in> set dds \<and> dd_channelType dd = SMS \<and>
      dd_status dd = DELIVERY_FAILED \<and>
      dd_errorMessage dd = Some ''No provider available for channel type: SMS''"
    by (rule exI [of _ resp], rule exI [of _ s3], rule exI [of _ d], rule exI [of _ dds],
        rule exI [of _ dd]) (use c in simp)
  then show ?thesis
    using h1 h2 h3 h4 t by (simp add: v)
qed



text \<open>
  Claim C9. \<^verbatim>\<open>markAsRead\<close> on a notification of the caller that is READ already succeeds,
  returns that notification with the status READ, and leaves the store as it was. The
  identities of the notifications are distinct, as the store keeps them.
\<close>

theorem markAsRead_already_read:
  assumes "find (\<lambda>n. n_id n = notificationId \<and> n_recipientId n = userId) (notifications s) = Some n"
    and "n_status n = READ"
    and "distinct (map n_id (notifications s))"
  shows "markAsRead userId notificationId s =
           (Inr \<lparr>r_id = notificationId, r_title = n_title n, r_message = n_message n,
                 r_type = n_type n, r_status = READ, r_senderId = n_senderId n,
                 r_recipientId = userId, r_deliveries = None\<rparr>, s)"
proof -
  have n: "n \<in> set (notifications s)" "n_id n = notificationId" "n_recipientId n = userId"
    using find_Some_set [OF assms(1)] by auto
  have uniq: "\<And>x. x \<in> set (notifications s) \<Longrightarrow> n_id x = notificationId \<Longrightarrow> x = n"
    using distinct_map_eq [OF assms(3) _ n(1)] n(2) by auto
  obtain n' where f: "find (\<lambda>x. n_id x = notificationId) (notifications s) = Some n'"
    using n by (cases "find (\<lambda>x. n_id x = notificationId) (notifications s)") (auto simp: find_None_iff)
  have n': "n' = n" using find_Some_set [OF f] uniq by auto
  have m: "map (\<lambda>x. if n_id x = notificationId then x\<lparr>n_status := READ\<rparr> else x) (notifications s)
             = notifications s"
  proof (rule map_idI)
    fix x assume "x \<in> set (notifications s)"
    then show "(if n_id x = notificationId then x\<lparr>n_status := READ\<rparr> else x) = x"
      using uniq [of x] assms(2) by auto
  qed
  have u: "notification_update notificationId READ s = (Inr n, s)"
    using assms(2) by (simp add: notification_update_def f n' m)
  show ?thesis
    using n assms(2) by (simp add: markAsRead_def assms(1) u)
qed

text \<open>The student marks notification 2 of the small store, which is READ, as read again.\<close>

theorem markAsRead_already_read_witness:
  "find (\<lambda>n. n_id n = 2 \<and> n_recipientId n = 2) (notifications exampleDb)
     = Some exampleReadNotification \<and>
   n_status exampleReadNotification = READ \<and>
   distinct (map n_id (notifications exampleDb)) \<and>
   markAsRead 2 2 exampleDb =
     (Inr \<lparr>r_id = 2, r_title = ''Seen'', r_message = ''second'', r_type = GRADE, r_status = READ,
           r_senderId = 1, r_recipientId = 2, r_deliveries = None\<rparr>, exampleDb)"
proof -
  have h1: "find (\<lambda>n. n_id n = 2 \<and> n_recipientId n = 2) (notifications exampleDb)
              = Some exampleReadNotification"
    by code_simp
  have h2: "n_status exampleReadNotification = READ"
    by (simp add: exampleReadNotification_def)
  have h3: "distinct (map n_id (notifications exampleDb))"
    by code_simp
  show ?thesis
    using markAsRead_already_read [OF h1 h2 h3] h1 h2 h3
    by (simp add: exampleReadNotification_def)
qed

text \<open>
  Claim C10. Whatever two providers are injected, the factory registers them for EMAIL and
  FCM only; for every other kind and every address the factory's validation is false and
  \<^verbatim>\<open>createNotificationChannel\<close> fails with the invalid-format error, leaving the store as it
  was.
\<close>

theorem unregistered_kinds:
  assumes "cc_type dto \<noteq> EMAIL" and "cc_type dto \<noteq> FCM"
  shows "\<not> factory_validateChannelValue (registerProviders emailProvider fcmProvider) (cc_type dto) v \<and>
         createNotificationChannel (registerProviders emailProvider fcmProvider) userId dto s =
           (Inl (Error (''Invalid '' @ channelTypeString (cc_type dto) @ '' value format'')), s)"
  using assms
  by (simp add: createNotificationChannel_def factory_validateChannelValue_def getProvider_registered)

text \<open>
  An SMS channel for the student on the small store, with the factory as the module wires
  it.
\<close>

theorem unregistered_kinds_witness:
  "cc_type exampleSmsChannelDto \<noteq> EMAIL \<and> cc_type exampleSmsChannelDto \<noteq> FCM \<and>
   \<not> factory_validateChannelValue (NotificationProviderFactory exampleEnv) SMS ''+15550100'' \<and>
   createNotificationChannel (NotificationProviderFactory exampleEnv) 2 exampleSmsChannelDto exampleDb
     = (Inl (Error ''Invalid SMS value format''), exampleDb)"
proof -
  have h1: "cc_type exampleSmsChannelDto \<noteq> EMAIL" and h2: "cc_type exampleSmsChannelDto \<noteq> FCM"
    by (simp_all add: exampleSmsChannelDto_def)
  have v: "cc_type exampleSmsChannelDto = SMS" by (simp add: exampleSmsChannelDto_def)
  show ?thesis
    using unregistered_kinds [OF h1 h2, of "EmailProvider exampleEnv" "FcmProvider exampleEnv"
        "''+15550100''" 2 exampleDb] h1 h2
    by (simp add: NotificationProviderFactory_def v)
qed

end
